theory Spec2Isabelle
  imports Complex_Main
begin

section \<open>Errors and Python arithmetic\<close>

text \<open>
  Every exception the modelled code can raise is a value of \<open>error\<close>; a computation
  that may raise returns \<open>error + 'a\<close>, with \<open>Inl\<close> for the exception.
  \<open>ExternalError\<close> stands for an exception raised inside an external collaborator
  (the network's forward pass, the metric computation).
\<close>

datatype error =
    AssertionError
  | ZeroDivisionError
  | IndexError
  | KeyError
  | ValueError
  | OverflowError
  | RuntimeError
  | NotImplementedError
  | ExternalError

definition then_do :: "error + 'a \<Rightarrow> ('a \<Rightarrow> error + 'b) \<Rightarrow> error + 'b" where
  "then_do r f = (case r of Inl e \<Rightarrow> Inl e | Inr x \<Rightarrow> f x)"

text \<open>Python's \<open>assert\<close> statement.\<close>

definition py_assert :: "bool \<Rightarrow> error + unit" where
  "py_assert b = (if b then Inr () else Inl AssertionError)"

text \<open>
  Python's \<open>%\<close> on integers: floored, the result has the sign of the divisor, and a
  zero divisor raises. HOL's \<open>mod\<close> on \<open>int\<close> is floored as well; the zero divisor
  is written out.
\<close>

definition py_mod :: "int \<Rightarrow> int \<Rightarrow> error + int" where
  "py_mod x y = (if y = 0 then Inl ZeroDivisionError else Inr (x mod y))"

text \<open>\<open>assert x % y == 0\<close>\<close>

definition assert_divisible :: "int \<Rightarrow> int \<Rightarrow> error + unit" where
  "assert_divisible x y = then_do (py_mod x y) (\<lambda>r. py_assert (r = 0))"

section \<open>Command-line arguments and their validation (\<open>parse_args\<close>)\<close>

datatype precision = fp32 | tf32 | bf16 | fp16 | amp

text \<open>The fields of the parsed argument namespace that the control logic reads.\<close>

record args =
  target_avg_lddt_ca_value :: real
  precision :: precision
  num_train_iters :: int
  log_every_iters :: int
  checkpoint_every_iters :: int
  val_every_iters :: int
  warmup_lr_iters :: int
  gradient_accumulation_iters :: int
  save_process_logs :: bool
  distributed :: bool

text \<open>
  \<open>parse_args\<close>, after \<open>parser.parse_args()\<close> has produced the namespace: the
  assertions of lines 266-280 of \<open>train.py\<close>, in their order.
\<close>

definition parse_args :: "args \<Rightarrow> error + args" where
  "parse_args a =
     then_do (if checkpoint_every_iters a > 0
              then assert_divisible (val_every_iters a) (checkpoint_every_iters a)
              else Inr ()) (\<lambda>_.
     then_do (if log_every_iters a > 0
              then then_do (assert_divisible (val_every_iters a) (log_every_iters a)) (\<lambda>_.
                   if checkpoint_every_iters a > 0
                   then assert_divisible (checkpoint_every_iters a) (log_every_iters a)
                   else Inr ())
              else Inr ()) (\<lambda>_.
     then_do (py_assert (gradient_accumulation_iters a \<ge> 1)) (\<lambda>_.
     then_do (assert_divisible (num_train_iters a) (gradient_accumulation_iters a)) (\<lambda>_.
     then_do (assert_divisible (val_every_iters a) (gradient_accumulation_iters a)) (\<lambda>_.
     then_do (assert_divisible (checkpoint_every_iters a) (gradient_accumulation_iters a)) (\<lambda>_.
     then_do (assert_divisible (log_every_iters a) (gradient_accumulation_iters a)) (\<lambda>_.
     then_do (assert_divisible (warmup_lr_iters a) (gradient_accumulation_iters a)) (\<lambda>_.
     Inr a))))))))"

text \<open>
  The cadence invariant in the words of the specification (section 3 and 4.1): every
  non-warmup interval is an exact multiple of the accumulation length, and the validation
  interval is an exact multiple of the checkpoint and log intervals when those are
  enabled (positive).
\<close>

definition spec_cadence_invariant :: "args \<Rightarrow> bool" where
  "spec_cadence_invariant a \<longleftrightarrow>
     gradient_accumulation_iters a dvd num_train_iters a \<and>
     gradient_accumulation_iters a dvd val_every_iters a \<and>
     gradient_accumulation_iters a dvd checkpoint_every_iters a \<and>
     gradient_accumulation_iters a dvd log_every_iters a \<and>
     (checkpoint_every_iters a > 0 \<longrightarrow> checkpoint_every_iters a dvd val_every_iters a) \<and>
     (log_every_iters a > 0 \<longrightarrow> log_every_iters a dvd val_every_iters a)"

text \<open>
  The invariant the assertions of \<open>parse_args\<close> enforce: the one above, and also a
  positive accumulation length, a warm-up length that is a multiple of it, and a
  checkpoint interval that is a multiple of the log interval when both are enabled.
\<close>

definition code_cadence_invariant :: "args \<Rightarrow> bool" where
  "code_cadence_invariant a \<longleftrightarrow>
     spec_cadence_invariant a \<and>
     gradient_accumulation_iters a \<ge> 1 \<and>
     gradient_accumulation_iters a dvd warmup_lr_iters a \<and>
     (log_every_iters a > 0 \<and> checkpoint_every_iters a > 0
        \<longrightarrow> log_every_iters a dvd checkpoint_every_iters a)"

text \<open>
  The defaults of the argument parser, and the configuration that section 8 of the
  specification expects to be accepted (\<open>val_every=40\<close>, \<open>checkpoint_every=20\<close>,
  \<open>accumulation_iters=4\<close>, \<open>log_every=4\<close>, the rest at its default).
\<close>

definition default_args :: args where
  "default_args =
     \<lparr>target_avg_lddt_ca_value = 8 / 10, precision = tf32, num_train_iters = 2000,
      log_every_iters = - 1, checkpoint_every_iters = 0, val_every_iters = 40,
      warmup_lr_iters = 0, gradient_accumulation_iters = 1, save_process_logs = False,
      distributed = False\<rparr>"

definition accepted_args :: args where
  "accepted_args =
     default_args\<lparr>val_every_iters := 40, checkpoint_every_iters := 20,
                  gradient_accumulation_iters := 4, log_every_iters := 4\<rparr>"

section \<open>Floating-point numbers\<close>

text \<open>
  A Python \<open>float\<close> is an IEEE 754 double. A finite double is modelled by the real
  number it denotes, and an operation on doubles by the exact operation followed by the
  rounding \<open>to_double\<close> to the nearest double, ties to the even significand.
  Infinities and NaN are not values of the model, and the two zeros are one value (as
  they are for \<open>==\<close> and \<open>!=\<close>). No operation below overflows on finite doubles.
\<close>

definition pow2 :: "int \<Rightarrow> real" where
  "pow2 e = (if 0 \<le> e then 2 ^ nat e else 1 / 2 ^ nat (- e))"

text \<open>
  The binary exponent of a positive real: the \<open>e\<close> with \<open>2^e \<le> x < 2^(e+1)\<close>, found
  by halving from above or doubling from below.
\<close>

function binade_up :: "real \<Rightarrow> int" where
  "binade_up x = (if 2 \<le> x then binade_up (x / 2) + 1 else 0)"
  by pat_completeness auto
termination
  by (relation "measure (\<lambda>x. nat \<lfloor>x\<rfloor>)") (auto simp: nat_less_iff | linarith)+

function binade_down :: "real \<Rightarrow> int" where
  "binade_down x = (if 0 < x \<and> x < 1 then binade_down (x * 2) - 1 else 0)"
  by pat_completeness auto
termination
proof (relation "measure (\<lambda>x. nat \<lceil>1 / x\<rceil>)")
  show "wf (measure (\<lambda>x::real. nat \<lceil>1 / x\<rceil>))" by simp
next
  fix x :: real
  assume x: "0 < x \<and> x < 1"
  then have y: "1 < 1 / x" by simp
  define c where "c = \<lceil>1 / x\<rceil>"
  have c: "2 \<le> c" and u: "1 / x \<le> of_int c" using y unfolding c_def by linarith+
  have h: "1 / (x * 2) = (1 / x) / 2" by simp
  from c have "(2::real) \<le> of_int c" by simp
  with u have "1 / (x * 2) \<le> of_int (c - 1)" unfolding h by simp
  then have "\<lceil>1 / (x * 2)\<rceil> \<le> c - 1" by (simp only: ceiling_le_iff)
  with c x show "(x * 2, x) \<in> measure (\<lambda>x. nat \<lceil>1 / x\<rceil>)"
    unfolding c_def by simp
qed

definition binade :: "real \<Rightarrow> int" where
  "binade x = (if 1 \<le> x then binade_up x else binade_down x)"

text \<open>Rounding to the nearest integer, a tie to the even one.\<close>

definition round_half_even :: "real \<Rightarrow> int" where
  "round_half_even y =
     (let f = \<lfloor>y\<rfloor>; d = y - of_int f
      in if d < 1 / 2 then f else if 1 / 2 < d then f + 1 else if even f then f else f + 1)"

text \<open>
  The nearest double: 53 significant bits, so the spacing at \<open>x\<close> is
  \<open>2^(binade x - 52)\<close>, and \<open>2^-1074\<close> below the smallest normal number \<open>2^-1022\<close>.
\<close>

definition to_double :: "real \<Rightarrow> real" where
  "to_double x =
     (let e = max (binade \<bar>x\<bar>) (- 1022) - 52
      in of_int (round_half_even (x / pow2 e)) * pow2 e)"

text \<open>
  Python's \<open>x / n\<close> for a float \<open>x\<close> and an integer \<open>n\<close>: the integer is converted to
  a double first (\<open>OverflowError\<close> when it is too large for one), a zero divisor
  raises, and the quotient is rounded.
\<close>

definition float_div :: "real \<Rightarrow> int \<Rightarrow> error + real" where
  "float_div x n =
     (if 2 ^ 1024 \<le> \<bar>to_double (of_int n)\<bar> then Inl OverflowError
      else if n = 0 then Inl ZeroDivisionError
      else Inr (to_double (x / to_double (of_int n))))"

text \<open>
  Python's \<open>round(x, ndigits)\<close> for a float \<open>x\<close> and \<open>ndigits \<ge> 0\<close>: the exact value
  of \<open>x\<close> is rounded to the nearest multiple of \<open>10^-ndigits\<close>, a tie to the even
  multiple, and the result is the double nearest to that decimal number. Beyond 323
  digits every double rounds to itself.
\<close>

definition py_round :: "real \<Rightarrow> nat \<Rightarrow> real" where
  "py_round x ndigits =
     (if 323 < ndigits then x
      else to_double (of_int (round_half_even (x * 10 ^ ndigits)) / 10 ^ ndigits))"

section \<open>The learning-rate schedule (\<open>lr_scheduler.py\<close>)\<close>

text \<open>
  A parameter group of the optimizer is a dictionary; the record \<open>param_group\<close> has
  its key \<open>lr\<close>, and the extension part of the record scheme stands for the other
  keys, which the scheduler never touches.
\<close>

record param_group =
  lr :: real

record 'z optimizer =
  param_groups :: "'z param_group_scheme list"

text \<open>
  \<open>set_learning_rate\<close>: the loop over \<open>optimizer.param_groups\<close>. The \<open>verbose\<close>
  print is not modelled.
\<close>

definition set_learning_rate :: "'z optimizer \<Rightarrow> real \<Rightarrow> bool \<Rightarrow> 'z optimizer" where
  "set_learning_rate opt lr_value vb =
     opt\<lparr>param_groups := map (\<lambda>param_group. param_group\<lparr>lr := lr_value\<rparr>) (param_groups opt)\<rparr>"

text \<open>
  \<open>torch.linspace(start, end, steps, dtype=torch.float64)\<close> belongs to the torch
  library. It returns a one-dimensional tensor of size \<open>steps\<close>, documented as the
  values \<open>start + k * (end - start) / (steps - 1)\<close>; which doubles it computes for them
  depends on its kernel (the order of the operations, the vector width of the machine),
  and it raises for a number of steps it cannot allocate. The kernel is a parameter of
  the model: for the arguments of a call, the exception it raises or the double it
  stores at each index.
\<close>

type_synonym linspace_kernel = "real \<Rightarrow> real \<Rightarrow> nat \<Rightarrow> error + (nat \<Rightarrow> real)"

definition torch_linspace :: "linspace_kernel \<Rightarrow> real \<Rightarrow> real \<Rightarrow> nat \<Rightarrow> error + real list" where
  "torch_linspace linspace start stop steps =
     then_do (linspace start stop steps) (\<lambda>v. Inr (map v [0..<steps]))"

text \<open>
  Indexing a one-dimensional tensor with a Python integer: a negative index counts from
  the end, an index out of range raises \<open>IndexError\<close>.
\<close>

definition tensor_item :: "real list \<Rightarrow> int \<Rightarrow> error + real" where
  "tensor_item xs i =
     (if 0 \<le> i \<and> i < int (length xs) then Inr (xs ! nat i)
      else if i < 0 \<and> - int (length xs) \<le> i then Inr (xs ! nat (int (length xs) + i))
      else Inl IndexError)"

text \<open>
  The state of an \<open>AlphaFoldLRScheduler\<close>. Its field \<open>optimizer\<close> is a reference to
  the optimizer of the training loop; the model passes that optimizer explicitly to
  \<open>scheduler_call\<close> and gets the updated one back.
\<close>

record scheduler =
  init_lr :: real
  final_lr :: real
  warmup_lr_length :: int
  init_lr_length :: int
  verbose :: bool
  warmup_linspace :: "real list"
  prev_lr_value :: "real option"

text \<open>\<open>AlphaFoldLRScheduler.__init__\<close>\<close>

definition new_scheduler ::
  "linspace_kernel \<Rightarrow> real \<Rightarrow> real \<Rightarrow> int \<Rightarrow> int \<Rightarrow> bool \<Rightarrow> error + scheduler" where
  "new_scheduler linspace il fl wl pl vb =
     then_do (py_assert (wl \<ge> 0)) (\<lambda>_.
     then_do (float_div il (max wl 1)) (\<lambda>start.
     then_do (torch_linspace linspace start il (nat wl)) (\<lambda>tensor.
     Inr \<lparr>init_lr = il, final_lr = fl, warmup_lr_length = wl, init_lr_length = pl,
          verbose = vb, warmup_linspace = tensor, prev_lr_value = None\<rparr>)))"

text \<open>The first half of \<open>__call__\<close>: "Determine lr_value for given iteration".\<close>

definition lr_value :: "scheduler \<Rightarrow> int \<Rightarrow> error + real" where
  "lr_value s iteration =
     (if iteration \<le> warmup_lr_length s
      then then_do (tensor_item (warmup_linspace s) (iteration - 1)) (\<lambda>v. Inr (py_round v 10))
      else if iteration \<le> init_lr_length s then Inr (init_lr s)
      else Inr (final_lr s))"

text \<open>
  \<open>AlphaFoldLRScheduler.__call__\<close>: the rate is written "only if differs from the
  previous call". \<open>None\<close> differs from every rate.
\<close>

definition scheduler_call ::
  "scheduler \<Rightarrow> 'z optimizer \<Rightarrow> int \<Rightarrow> error + (scheduler \<times> 'z optimizer)" where
  "scheduler_call s opt iteration =
     then_do (lr_value s iteration) (\<lambda>v.
       if Some v \<noteq> prev_lr_value s
       then Inr (s\<lparr>prev_lr_value := Some v\<rparr>, set_learning_rate opt v (verbose s))
       else Inr (s, opt))"

text \<open>A sequence of calls, each on the state the previous one left.\<close>

fun scheduler_calls ::
  "scheduler \<Rightarrow> 'z optimizer \<Rightarrow> int list \<Rightarrow> error + (scheduler \<times> 'z optimizer)" where
  "scheduler_calls s opt [] = Inr (s, opt)"
| "scheduler_calls s opt (i # is) =
     then_do (scheduler_call s opt i) (\<lambda>(s', opt'). scheduler_calls s' opt' is)"

text \<open>
  The rate a freshly constructed scheduler computes at an iteration, and the fact that
  a rate is the last-applied value of the scheduler and stands in every parameter group
  of the optimizer.
\<close>

definition scheduled_rate ::
  "linspace_kernel \<Rightarrow> real \<Rightarrow> real \<Rightarrow> int \<Rightarrow> int \<Rightarrow> int \<Rightarrow> error + real" where
  "scheduled_rate linspace il fl wl pl i =
     then_do (new_scheduler linspace il fl wl pl False) (\<lambda>s. lr_value s i)"

definition last_written :: "scheduler \<Rightarrow> 'z optimizer \<Rightarrow> real \<Rightarrow> bool" where
  "last_written s opt r \<longleftrightarrow>
     prev_lr_value s = Some r \<and> list_all (\<lambda>g. lr g = r) (param_groups opt)"

text \<open>
  For the examples, the kernel that stores the documented values themselves. On
  arguments where \<open>start\<close>, the step \<open>(end - start) / (steps - 1)\<close> and every value
  are doubles with a common power of two as their unit, every order of the operations
  in double arithmetic is exact and gives these values. That is so for the scheduler of
  the examples: \<open>init_lr = 3/4096\<close> with a warm-up of three iterations makes the
  tensor \<open>[1/4096, 2/4096, 3/4096]\<close>. Its plateau reaches up to iteration five, and
  the optimizer has two parameter groups.
\<close>

definition exact_linspace :: linspace_kernel where
  "exact_linspace start stop steps =
     Inr (\<lambda>k. if steps = 1 then start else start + real k * ((stop - start) / real (steps - 1)))"

definition example_scheduler :: scheduler where
  "example_scheduler =
     \<lparr>init_lr = 3 / 4096, final_lr = 1 / 16384, warmup_lr_length = 3, init_lr_length = 5,
      verbose = False, warmup_linspace = [1 / 4096, 1 / 2048, 3 / 4096],
      prev_lr_value = None\<rparr>"

definition example_optimizer :: "unit optimizer" where
  "example_optimizer = \<lparr>param_groups = [\<lparr>lr = 1 / 2\<rparr>, \<lparr>lr = 1 / 4\<rparr>]\<rparr>"

section \<open>The validation cycle (\<open>validation\<close>)\<close>

text \<open>
  A validation batch carries the list of sample identities under its key \<open>id\<close>; of an
  identity tuple the function reads the components 1 (\<open>val_index\<close>) and 3
  (\<open>pdb_chain_id\<close>). The features are opaque.
\<close>

record id_tuple =
  id_val_index :: int
  id_pdb_chain_id :: string

record 'b val_batch =
  batch_id :: "id_tuple list"
  features :: 'b

text \<open>One entry of \<open>val_metrics_list\<close> (the wall-clock \<open>duration\<close> is not modelled).\<close>

record val_metrics =
  lddt_ca :: real
  val_index :: int
  pdb_chain_id :: string

text \<open>The mode of a \<open>torch.nn.Module\<close>: \<open>train()\<close> and \<open>eval()\<close> set it.\<close>

datatype mode = TrainMode | EvalMode

text \<open>
  The body of the \<open>for\<close> loop of \<open>validation\<close>, over the batches the dataloader
  yields. \<open>alphafold\<close> stands for the forward pass of the module in its current mode
  followed by \<open>compute_validation_metrics\<close> and \<open>.item()\<close>: the \<open>lddt_ca\<close> of the
  sample, or an exception.
\<close>

fun validation_loop ::
  "('b val_batch \<Rightarrow> error + real) \<Rightarrow> 'b val_batch list \<Rightarrow> val_metrics list
    \<Rightarrow> error + val_metrics list" where
  "validation_loop alphafold [] val_metrics_list = Inr val_metrics_list"
| "validation_loop alphafold (val_batch # rest) val_metrics_list =
     (if length (batch_id val_batch) \<noteq> 1 then Inl AssertionError
      else case alphafold val_batch of
             Inl e \<Rightarrow> Inl e
           | Inr v \<Rightarrow>
               validation_loop alphafold rest
                 (val_metrics_list @
                   [\<lparr>lddt_ca = v,
                     val_index = id_val_index (hd (batch_id val_batch)),
                     pdb_chain_id = id_pdb_chain_id (hd (batch_id val_batch))\<rparr>]))"

text \<open>
  \<open>validation\<close>: the result, and the mode of the module when control leaves the
  function. An exception of the loop propagates at once: \<open>alphafold.train()\<close> is the
  statement after the loop, outside any \<open>try\<close>.
\<close>

definition validation ::
  "(mode \<Rightarrow> 'b val_batch \<Rightarrow> error + real) \<Rightarrow> mode \<Rightarrow> 'b val_batch list
    \<Rightarrow> (error + val_metrics list) \<times> mode" where
  "validation alphafold m validation_dataloader =
     (let m1 = EvalMode
      in case validation_loop (alphafold m1) validation_dataloader [] of
           Inl e \<Rightarrow> (Inl e, m1)
         | Inr val_metrics_list \<Rightarrow> (Inr val_metrics_list, TrainMode))"

section \<open>Module creation under a fixed seed (\<open>create_alphafold_module\<close>)\<close>

text \<open>
  The global random-number-generator state the function touches: NumPy's global
  generator, torch's CPU generator, and one CUDA generator for each device.
\<close>

record ('s, 'd) rng_state =
  numpy_random_state :: 's
  torch_rng_state :: 's
  torch_cuda_rng_state :: "'d \<Rightarrow> 's"

text \<open>
  The library behind the function, as parameters: the generator state a seed gives, the
  constructor \<open>AlphaFold(config)\<close> and the transfer \<open>alphafold.to(device)\<close>, both
  free to draw random numbers (to change any generator) and to raise, and the constant
  \<open>NUMPY_SEED_MODULUS\<close> of \<open>openfold.numpy_utils\<close>.
\<close>

record ('s, 'd, 'c, 'm) torch_lib =
  NUMPY_SEED_MODULUS :: int
  numpy_seeded :: "int \<Rightarrow> 's"
  torch_seeded :: "int \<Rightarrow> 's"
  cuda_seeded :: "int \<Rightarrow> 's"
  AlphaFold :: "'c \<Rightarrow> ('s, 'd) rng_state \<Rightarrow> (error + 'm) \<times> ('s, 'd) rng_state"
  to_device :: "'m \<Rightarrow> 'd \<Rightarrow> ('s, 'd) rng_state \<Rightarrow> (error + 'm) \<times> ('s, 'd) rng_state"

text \<open>\<open>np.random.seed\<close>: a seed outside \<open>[0, 2^32)\<close> raises \<open>ValueError\<close>.\<close>

definition np_random_seed ::
  "('s, 'd, 'c, 'm) torch_lib \<Rightarrow> int \<Rightarrow> ('s, 'd) rng_state \<Rightarrow> (error + unit) \<times> ('s, 'd) rng_state" where
  "np_random_seed lib n g =
     (if 0 \<le> n \<and> n < 2 ^ 32 then (Inr (), g\<lparr>numpy_random_state := numpy_seeded lib n\<rparr>)
      else (Inl ValueError, g))"

text \<open>
  \<open>torch.manual_seed\<close> seeds the CPU generator and the generator of every CUDA
  device. A seed outside \<open>[-2^63, 2^64)\<close> does not fit the 64-bit seed of a generator:
  the call raises \<open>RuntimeError\<close> and no generator is changed.
\<close>

definition torch_manual_seed ::
  "('s, 'd, 'c, 'm) torch_lib \<Rightarrow> int \<Rightarrow> ('s, 'd) rng_state \<Rightarrow> (error + unit) \<times> ('s, 'd) rng_state" where
  "torch_manual_seed lib n g =
     (if - (2 ^ 63) \<le> n \<and> n < 2 ^ 64
      then (Inr (), g\<lparr>torch_rng_state := torch_seeded lib n,
                       torch_cuda_rng_state := (\<lambda>_. cuda_seeded lib n)\<rparr>)
      else (Inl RuntimeError, g))"

text \<open>
  \<open>create_alphafold_module\<close>: the module or the exception, and the generator state
  when control leaves the function. The three statements that restore the generators
  follow the device transfer as plain statements, outside any \<open>try\<close>: an exception
  raised before them propagates at once.
\<close>

definition create_alphafold_module ::
  "('s, 'd, 'c, 'm) torch_lib \<Rightarrow> 'c \<Rightarrow> 'd \<Rightarrow> int \<Rightarrow> ('s, 'd) rng_state
    \<Rightarrow> (error + 'm) \<times> ('s, 'd) rng_state" where
  "create_alphafold_module lib alphafold_config device seed g =
     (let saved_numpy = numpy_random_state g;
          saved_torch = torch_rng_state g;
          saved_cuda = torch_cuda_rng_state g device
      in case py_mod seed (NUMPY_SEED_MODULUS lib) of
           Inl e \<Rightarrow> (Inl e, g)
         | Inr n \<Rightarrow>
             (case np_random_seed lib n g of
                (Inl e, g1) \<Rightarrow> (Inl e, g1)
              | (Inr _, g1) \<Rightarrow>
                  (case torch_manual_seed lib seed g1 of
                     (Inl e, g2) \<Rightarrow> (Inl e, g2)
                   | (Inr _, g2) \<Rightarrow>
                       (case AlphaFold lib alphafold_config g2 of
                          (Inl e, g3) \<Rightarrow> (Inl e, g3)
                        | (Inr alphafold, g3) \<Rightarrow>
                            (case to_device lib alphafold device g3 of
                               (Inl e, g4) \<Rightarrow> (Inl e, g4)
                             | (Inr alphafold', g4) \<Rightarrow>
                                 (let g5 = g4\<lparr>torch_cuda_rng_state :=
                                                (torch_cuda_rng_state g4)(device := saved_cuda)\<rparr>;
                                      g6 = g5\<lparr>torch_rng_state := saved_torch\<rparr>;
                                      g7 = g6\<lparr>numpy_random_state := saved_numpy\<rparr>
                                  in (Inr alphafold', g7)))))))"

text \<open>
  The generator state after the two seeding calls of the function, when neither raises.
\<close>

definition seeded_state ::
  "('s, 'd, 'c, 'm) torch_lib \<Rightarrow> int \<Rightarrow> ('s, 'd) rng_state \<Rightarrow> ('s, 'd) rng_state" where
  "seeded_state lib seed g =
     g\<lparr>numpy_random_state := numpy_seeded lib (seed mod NUMPY_SEED_MODULUS lib),
       torch_rng_state := torch_seeded lib seed,
       torch_cuda_rng_state := (\<lambda>_. cuda_seeded lib seed)\<rparr>"

section \<open>The training loop (\<open>training\<close>)\<close>

text \<open>
  The loop is modelled by what it does, in order: every call that acts on the model,
  the optimizer, the other processes, the log files or the checkpoint directory is an
  event of the trace of the process that makes the call. Losses and metrics are real
  numbers; wall-clock measurements and the contents of the log records are left out.
\<close>

datatype event =
    InitProcessGroup
  | CreateAlphafoldModule
  | CreateOptimizer
  | CreateLrScheduler
  | CreateSWA
  | ResumeFromLatestCheckpoint
  | EpochStart
  | ManualSeed "nat option" int
  | NextTrainBatch
  | ForwardLoss
  | ZeroGrad
  | Backward real
  | ClipGradNorm real
  | LrScheduler int
  | OptimizerStep
  | SwaUpdate
  | DistReduceLossesAvg
  | SaveProcessLogs
  | SaveTrainLogs
  | EpochStop
  | EvalStart
  | RunValidation bool
  | DistGatherValMetrics
  | EvalAccuracy real
  | SaveValLog int real nat
  | SetStopFlag bool
  | Broadcast bool
  | EmptyCache
  | EvalStop
  | SaveCheckpoint int bool "real option"
  | Barrier
  | RunStop

text \<open>The fields of \<open>AlphaFoldConfig\<close> the loop reads.\<close>

record alphafold_config =
  gradient_clipping :: bool
  clip_grad_max_norm :: real
  swa_enabled :: bool

text \<open>
  What the loop gets from outside: the number of processes (\<open>WORLD_SIZE\<close>), the
  iterations of the checkpoints found in the training directory at startup, the loss
  \<open>alphafold_loss\<close> returns to a process (by rank) at an iteration, the validation
  dataloader of a process, the evaluation of one validation sample by the module as it
  is at an iteration, what \<open>dist_gather_val_metrics\<close> returns to a process (to the
  main process or not) from the lists of all processes, and \<open>len(validation_dataset)\<close>.
\<close>

record 'b env =
  world_size :: nat
  checkpoint_iterations :: "int list"
  train_loss :: "nat option \<Rightarrow> int \<Rightarrow> real"
  validation_dataloader :: "nat option \<Rightarrow> 'b val_batch list"
  alphafold_eval :: "int \<Rightarrow> nat option \<Rightarrow> mode \<Rightarrow> 'b val_batch \<Rightarrow> error + real"
  dist_gather_val_metrics :: "bool \<Rightarrow> val_metrics list list \<Rightarrow> val_metrics list"
  len_validation_dataset :: nat

text \<open>
  Modelled from the spec: \<open>resume_from_latest_checkpoint\<close> of
  \<open>openfold.checkpoint_utils\<close>, which is not among the sources. Section 4.5: it
  "locates the checkpoint with the highest iteration number in the target location; if
  none exists, returns 0 (fresh start)". The restoring of the model and optimizer state
  is not modelled.
\<close>

definition resume_from_latest_checkpoint :: "int list \<Rightarrow> int" where
  "resume_from_latest_checkpoint its = (if its = [] then 0 else Max (set its))"

text \<open>
  The variables of one process during one iteration of the loop: its rank (\<open>None\<close>
  without a process group), whether it is the main process, the events of the iteration
  so far, \<open>val_metrics_list\<close>, \<open>val_avg_lddt_ca\<close> (unbound is \<open>None\<close>), the truth
  value of the tensor \<open>stop_training_flag\<close>, and the exception it raised, if any.
\<close>

record pstate =
  rank :: "nat option"
  is_main_process :: bool
  trace :: "event list"
  val_metrics_list :: "val_metrics list"
  val_avg_lddt_ca :: "real option"
  stop_training_flag :: bool
  raised :: "error option"

definition fresh_pstate :: "nat option \<Rightarrow> bool \<Rightarrow> pstate" where
  "fresh_pstate r m =
     \<lparr>rank = r, is_main_process = m, trace = [], val_metrics_list = [],
      val_avg_lddt_ca = None, stop_training_flag = False, raised = None\<rparr>"

text \<open>
  Lines 384-414: with a process group, one process for each rank below \<open>WORLD_SIZE\<close>,
  the main process being rank \<open>main_rank = 0\<close>; without, the single process.
\<close>

definition main_rank :: nat where
  "main_rank = 0"

definition processes :: "args \<Rightarrow> nat \<Rightarrow> pstate list" where
  "processes a ws =
     (if distributed a then map (\<lambda>r. fresh_pstate (Some r) (r = main_rank)) [0..<ws]
      else [fresh_pstate None True])"

definition emit :: "event list \<Rightarrow> pstate \<Rightarrow> pstate" where
  "emit es s = s\<lparr>trace := trace s @ es\<rparr>"

definition is_logging_enabled :: "args \<Rightarrow> bool" where
  "is_logging_enabled a \<longleftrightarrow> log_every_iters a > 0"

text \<open>Lines 743-772: epoch start, the per-iteration seed, the next batch, the forward pass.\<close>

definition forward_events :: "pstate \<Rightarrow> int \<Rightarrow> bool \<Rightarrow> event list" where
  "forward_events s i is_train_val_cycle_start =
     (if is_train_val_cycle_start then [EpochStart] else []) @
     [ManualSeed (rank s) i, NextTrainBatch, ForwardLoss]"

text \<open>
  Lines 773-796: the loss divided by the accumulation length, the backward pass, and
  the optimizer update at the end of an accumulation group. The accumulation length is
  not zero here.
\<close>

definition backward_events :: "alphafold_config \<Rightarrow> args \<Rightarrow> 'b env \<Rightarrow> pstate \<Rightarrow> int \<Rightarrow> event list" where
  "backward_events c a env s i =
     (if (i - 1) mod gradient_accumulation_iters a = 0 then [ZeroGrad] else []) @
     [Backward (train_loss env (rank s) i / of_int (gradient_accumulation_iters a))] @
     (if i mod gradient_accumulation_iters a = 0
      then (if gradient_clipping c then [ClipGradNorm (clip_grad_max_norm c)] else []) @
           [LrScheduler i, OptimizerStep] @
           (if swa_enabled c then [SwaUpdate] else [])
      else [])"

text \<open>Lines 798-858: the reduction of the losses, the saving of the logs, epoch stop.\<close>

definition logging_events :: "args \<Rightarrow> pstate \<Rightarrow> int \<Rightarrow> bool \<Rightarrow> event list" where
  "logging_events a s i is_train_val_cycle_end =
     (if is_logging_enabled a \<and> distributed a then [DistReduceLossesAvg] else []) @
     (if is_logging_enabled a \<and> i mod log_every_iters a = 0
      then (if save_process_logs a then [SaveProcessLogs] else []) @
           (if is_main_process s then [SaveTrainLogs] else [])
      else []) @
     (if is_train_val_cycle_end then [EpochStop] else [])"

text \<open>
  The training part of an iteration in one process. The validation interval is not
  zero here; a zero accumulation length raises at line 776, after the forward pass. The
  batch iterator, the forward pass and the loss are taken to return.
\<close>

definition train_phase ::
  "alphafold_config \<Rightarrow> args \<Rightarrow> 'b env \<Rightarrow> int \<Rightarrow> pstate \<Rightarrow> pstate" where
  "train_phase c a env i s =
     (let is_train_val_cycle_start = ((i - 1) mod val_every_iters a = 0);
          is_train_val_cycle_end = (i mod val_every_iters a = 0);
          s1 = emit (forward_events s i is_train_val_cycle_start) s
      in if gradient_accumulation_iters a = 0 then s1\<lparr>raised := Some ZeroDivisionError\<rparr>
         else emit (backward_events c a env s i @ logging_events a s i is_train_val_cycle_end) s1)"

text \<open>Lines 862-878: the call of \<open>validation\<close> on the module (or its SWA version).\<close>

definition validate_phase :: "alphafold_config \<Rightarrow> 'b env \<Rightarrow> int \<Rightarrow> pstate \<Rightarrow> pstate" where
  "validate_phase c env i s =
     (let s1 = emit [EvalStart, RunValidation (swa_enabled c)] s
      in case fst (validation (alphafold_eval env i (rank s)) TrainMode
                     (validation_dataloader env (rank s))) of
           Inl e \<Rightarrow> s1\<lparr>raised := Some e\<rparr>
         | Inr ms \<Rightarrow> s1\<lparr>val_metrics_list := ms\<rparr>)"

text \<open>
  Lines 879-889: the gathering of the per-sample metrics, a collective call;
  \<open>all_lists\<close> are the lists the processes bring to it.
\<close>

definition gather_phase :: "args \<Rightarrow> 'b env \<Rightarrow> val_metrics list list \<Rightarrow> pstate \<Rightarrow> pstate" where
  "gather_phase a env all_lists s =
     (if distributed a
      then (emit [DistGatherValMetrics] s)
             \<lparr>val_metrics_list := dist_gather_val_metrics env (is_main_process s) all_lists\<rparr>
      else s)"

text \<open>
  \<open>float(val_metrics_df["lddt_ca"].mean())\<close>: the data frame of an empty list has no
  column \<open>lddt_ca\<close>.
\<close>

definition mean_lddt_ca :: "val_metrics list \<Rightarrow> error + real" where
  "mean_lddt_ca ms =
     (if ms = [] then Inl KeyError else Inr (sum_list (map lddt_ca ms) / real (length ms)))"

text \<open>
  Lines 891-923: in the main process the aggregation, the count check, the accuracy
  event, the validation log and the stop flag; in any other process the zero flag.
\<close>

definition decide_phase :: "args \<Rightarrow> 'b env \<Rightarrow> int \<Rightarrow> pstate \<Rightarrow> pstate" where
  "decide_phase a env i s =
     (if is_main_process s
      then (case mean_lddt_ca (val_metrics_list s) of
              Inl e \<Rightarrow> s\<lparr>raised := Some e\<rparr>
            | Inr avg \<Rightarrow>
                if length (val_metrics_list s) \<noteq> len_validation_dataset env
                then s\<lparr>raised := Some AssertionError\<rparr>
                else (emit ([EvalAccuracy avg] @
                            (if is_logging_enabled a
                             then [SaveValLog i avg (length (val_metrics_list s))] else []) @
                            [SetStopFlag (avg \<ge> target_avg_lddt_ca_value a)]) s)
                       \<lparr>val_avg_lddt_ca := Some avg,
                        stop_training_flag := (avg \<ge> target_avg_lddt_ca_value a)\<rparr>)
      else (emit [SetStopFlag False] s)\<lparr>stop_training_flag := False\<rparr>)"

text \<open>
  Lines 924-925: \<open>torch.distributed.broadcast(tensor=stop_training_flag, src=main_rank)\<close>
  overwrites the flag of the process with \<open>main_flag\<close>, the flag of the process of
  rank \<open>main_rank\<close>.
\<close>

definition broadcast_phase :: "args \<Rightarrow> bool \<Rightarrow> pstate \<Rightarrow> pstate" where
  "broadcast_phase a main_flag s =
     (if distributed a
      then (emit [Broadcast main_flag] s)\<lparr>stop_training_flag := main_flag\<rparr>
      else s)"

text \<open>Lines 926-934.\<close>

definition finish_validation_phase :: "pstate \<Rightarrow> pstate" where
  "finish_validation_phase s = emit [EmptyCache, EvalStop] s"

text \<open>Lines 936-953: the main process saves the checkpoint when one is due.\<close>

definition checkpoint_phase :: "args \<Rightarrow> int \<Rightarrow> bool \<Rightarrow> pstate \<Rightarrow> pstate" where
  "checkpoint_phase a i is_validation s =
     (if is_main_process s \<and> checkpoint_every_iters a > 0 \<and> i mod checkpoint_every_iters a = 0
      then emit [SaveCheckpoint i is_validation
                   (if is_validation then val_avg_lddt_ca s else None)] s
      else s)"

fun first_raised :: "pstate list \<Rightarrow> error option" where
  "first_raised [] = None"
| "first_raised (s # sts) = (case raised s of Some e \<Rightarrow> Some e | None \<Rightarrow> first_raised sts)"

text \<open>
  How an iteration ends: the loop goes on, every process breaks out of it, a process
  raised, or the processes disagree on the break (some leave the loop and the others
  wait for them in the next collective call).
\<close>

datatype outcome = Continue | Break | Raised error | Desync

record iter_rec =
  iteration :: int
  procs :: "pstate list"
  outcome :: outcome

text \<open>
  One iteration of the loop (lines 736-957) in all processes, which run in lock-step
  from one collective call to the next. A process that raises ends the run.
\<close>

definition train_val_iteration ::
  "alphafold_config \<Rightarrow> args \<Rightarrow> 'b env \<Rightarrow> pstate list \<Rightarrow> int \<Rightarrow> iter_rec" where
  "train_val_iteration c a env sts0 i =
     (if val_every_iters a = 0
      then \<lparr>iteration = i, procs = map (\<lambda>s. s\<lparr>raised := Some ZeroDivisionError\<rparr>) sts0,
            outcome = Raised ZeroDivisionError\<rparr>
      else
       let sts1 = map (train_phase c a env i) sts0 in
       case first_raised sts1 of
         Some e \<Rightarrow> \<lparr>iteration = i, procs = sts1, outcome = Raised e\<rparr>
       | None \<Rightarrow>
          let is_validation = (i mod val_every_iters a = 0) in
          if \<not> is_validation
          then \<lparr>iteration = i, procs = map (checkpoint_phase a i False) sts1, outcome = Continue\<rparr>
          else
           let sts2 = map (validate_phase c env i) sts1 in
           case first_raised sts2 of
             Some e \<Rightarrow> \<lparr>iteration = i, procs = sts2, outcome = Raised e\<rparr>
           | None \<Rightarrow>
              let all_lists = map val_metrics_list sts2;
                  sts3 = map (\<lambda>s. decide_phase a env i (gather_phase a env all_lists s)) sts2
              in
              case first_raised sts3 of
                Some e \<Rightarrow> \<lparr>iteration = i, procs = sts3, outcome = Raised e\<rparr>
              | None \<Rightarrow>
                 let main_flag = stop_training_flag (sts3 ! main_rank);
                     sts4 = map (\<lambda>s. checkpoint_phase a i True
                                        (finish_validation_phase (broadcast_phase a main_flag s)))
                              sts3
                 in \<lparr>iteration = i, procs = sts4,
                     outcome = (if list_all stop_training_flag sts4 then Break
                                else if list_all (\<lambda>s. \<not> stop_training_flag s) sts4 then Continue
                                else Desync)\<rparr>)"

text \<open>The \<open>for\<close> loop over the iterations still to run; any outcome but \<open>Continue\<close> ends it.\<close>

fun training_loop ::
  "alphafold_config \<Rightarrow> args \<Rightarrow> 'b env \<Rightarrow> pstate list \<Rightarrow> int list \<Rightarrow> iter_rec list" where
  "training_loop c a env sts [] = []"
| "training_loop c a env sts (i # is) =
     (let r = train_val_iteration c a env sts i
      in if outcome r = Continue then r # training_loop c a env sts is else [r])"

datatype status = Completed | Aborted error | Deadlocked

record run =
  startup :: "event list"
  iterations :: "iter_rec list"
  shutdown :: "event list"
  status :: status

definition loop_end :: "iter_rec list \<Rightarrow> outcome" where
  "loop_end rs = (if rs = [] then Continue else outcome (last rs))"

text \<open>
  \<open>training\<close>: the startup every process goes through (the events before the loop are
  the same in all of them), the loop, and the shutdown (lines 959-964).
\<close>

definition training :: "alphafold_config \<Rightarrow> 'b env \<Rightarrow> args \<Rightarrow> run" where
  "training c env a =
     (let pre0 = (if distributed a then [InitProcessGroup] else []) in
      if precision a = bf16 \<or> precision a = fp16 \<or> precision a = amp
      then \<lparr>startup = pre0, iterations = [], shutdown = [], status = Aborted NotImplementedError\<rparr>
      else
       let pre = pre0 @ [CreateAlphafoldModule, CreateOptimizer, CreateLrScheduler, CreateSWA,
                         ResumeFromLatestCheckpoint];
           num_prev_iters = resume_from_latest_checkpoint (checkpoint_iterations env)
       in case assert_divisible num_prev_iters (gradient_accumulation_iters a) of
            Inl e \<Rightarrow> \<lparr>startup = pre, iterations = [], shutdown = [], status = Aborted e\<rparr>
          | Inr _ \<Rightarrow>
             let first_iteration = num_prev_iters + 1;
                 rs = training_loop c a env (processes a (world_size env))
                        [first_iteration..num_train_iters a]
             in case loop_end rs of
                  Raised e \<Rightarrow> \<lparr>startup = pre, iterations = rs, shutdown = [], status = Aborted e\<rparr>
                | Desync \<Rightarrow> \<lparr>startup = pre, iterations = rs, shutdown = [], status = Deadlocked\<rparr>
                | _ \<Rightarrow> \<lparr>startup = pre, iterations = rs,
                         shutdown = (if distributed a then [Barrier] else []) @ [RunStop],
                         status = Completed\<rparr>)"

text \<open>
  The script: \<open>training(parse_args())\<close>. An exception of \<open>parse_args\<close> propagates
  before \<open>training\<close> is entered. The handler of \<open>KeyboardInterrupt\<close>, an
  interrupt from outside, is not modelled.
\<close>

definition main :: "alphafold_config \<Rightarrow> 'b env \<Rightarrow> args \<Rightarrow> run" where
  "main c env a =
     (case parse_args a of
        Inl e \<Rightarrow> \<lparr>startup = [], iterations = [], shutdown = [], status = Aborted e\<rparr>
      | Inr a' \<Rightarrow> training c env a')"

text \<open>
  Classes of events: the six actions on the gradients and the optimizer (lines 776-796),
  and the events of the validation and checkpoint part of an iteration (lines 862-953).
\<close>

fun accumulation_event :: "event \<Rightarrow> bool" where
  "accumulation_event ZeroGrad = True"
| "accumulation_event (Backward _) = True"
| "accumulation_event (ClipGradNorm _) = True"
| "accumulation_event (LrScheduler _) = True"
| "accumulation_event OptimizerStep = True"
| "accumulation_event SwaUpdate = True"
| "accumulation_event _ = False"

fun late_event :: "event \<Rightarrow> bool" where
  "late_event EvalStart = True"
| "late_event (RunValidation _) = True"
| "late_event DistGatherValMetrics = True"
| "late_event (EvalAccuracy _) = True"
| "late_event (SaveValLog _ _ _) = True"
| "late_event (SetStopFlag _) = True"
| "late_event (Broadcast _) = True"
| "late_event EmptyCache = True"
| "late_event EvalStop = True"
| "late_event (SaveCheckpoint _ _ _) = True"
| "late_event _ = False"

text \<open>The events that set the stop flag of a process.\<close>

fun flag_event :: "event \<Rightarrow> bool" where
  "flag_event (SetStopFlag _) = True"
| "flag_event (Broadcast _) = True"
| "flag_event _ = False"

text \<open>
  What \<open>validation\<close> returns to the process of a rank at an iteration, what is seen of a process through a
  class of events, and the list the main process holds after the gathering (its own
  list without a process group).
\<close>

definition local_val_result :: "'b env \<Rightarrow> int \<Rightarrow> nat option \<Rightarrow> error + val_metrics list" where
  "local_val_result env i rk =
     fst (validation (alphafold_eval env i rk) TrainMode (validation_dataloader env rk))"

definition process_view :: "(event \<Rightarrow> bool) \<Rightarrow> pstate \<Rightarrow> nat option \<times> bool \<times> event list" where
  "process_view p s = (rank s, is_main_process s, filter p (trace s))"

definition gathered_on_main :: "args \<Rightarrow> 'b env \<Rightarrow> int \<Rightarrow> val_metrics list" where
  "gathered_on_main a env i =
     (if distributed a
      then dist_gather_val_metrics env True
             (map (\<lambda>s. projr (local_val_result env i (rank s))) (processes a (world_size env)))
      else projr (local_val_result env i None))"

text \<open>
  The count check of the main process on a gathered list, and the mean the main process
  computes from it.
\<close>

definition count_ok :: "'b env \<Rightarrow> val_metrics list \<Rightarrow> bool" where
  "count_ok env ms \<longleftrightarrow> ms \<noteq> [] \<and> length ms = len_validation_dataset env"

definition mean_of :: "val_metrics list \<Rightarrow> real" where
  "mean_of ms = sum_list (map lddt_ca ms) / real (length ms)"

text \<open>
  A small run for the examples: a single process, eight iterations in accumulation
  groups of two, validation and checkpoint every two iterations, a validation set of
  two samples, and a module whose \<open>lddt_ca\<close> is 1/2 on every sample before iteration
  4 and 9/10 from then on, so that the target 0.8 is reached at iteration 4.
\<close>

definition example_config :: alphafold_config where
  "example_config = \<lparr>gradient_clipping = True, clip_grad_max_norm = 1 / 10, swa_enabled = True\<rparr>"

definition example_batch :: "int \<Rightarrow> unit val_batch" where
  "example_batch k =
     \<lparr>batch_id = [\<lparr>id_val_index = k, id_pdb_chain_id = ''1abc_A''\<rparr>], features = ()\<rparr>"

definition example_env :: "unit env" where
  "example_env =
     \<lparr>world_size = 1, checkpoint_iterations = [],
      train_loss = (\<lambda>_ _. 3),
      validation_dataloader = (\<lambda>_. [example_batch 0, example_batch 1]),
      alphafold_eval = (\<lambda>i _ _ _. Inr (if i < 4 then 1 / 2 else 9 / 10)),
      dist_gather_val_metrics = (\<lambda>_ all_lists. concat all_lists),
      len_validation_dataset = 2\<rparr>"

definition example_args :: args where
  "example_args =
     default_args\<lparr>num_train_iters := 8, gradient_accumulation_iters := 2,
                  val_every_iters := 2, checkpoint_every_iters := 2, log_every_iters := 0\<rparr>"

text \<open>
  What \<open>validation\<close> appends to its list for a batch, and a module that raises on the
  sample of index 1.
\<close>

definition sample_metrics :: "('b val_batch \<Rightarrow> error + real) \<Rightarrow> 'b val_batch \<Rightarrow> val_metrics" where
  "sample_metrics alphafold b =
     \<lparr>lddt_ca = projr (alphafold b), val_index = id_val_index (hd (batch_id b)),
      pdb_chain_id = id_pdb_chain_id (hd (batch_id b))\<rparr>"

definition failing_eval :: "mode \<Rightarrow> unit val_batch \<Rightarrow> error + real" where
  "failing_eval m b =
     (if id_val_index (hd (batch_id b)) = 1 then Inl ExternalError else Inr (1 / 2))"

text \<open>
  A library whose generator states are numbers, whose constructor and device transfer
  both draw from the generators; the same library with a constructor that raises; and
  a generator state to start from.
\<close>

definition example_lib :: "(nat, nat, unit, nat) torch_lib" where
  "example_lib =
     \<lparr>NUMPY_SEED_MODULUS = 2 ^ 32,
      numpy_seeded = (\<lambda>n. nat n), torch_seeded = (\<lambda>n. nat n + 1),
      cuda_seeded = (\<lambda>n. nat n + 2),
      AlphaFold = (\<lambda>_ g. (Inr (numpy_random_state g + torch_rng_state g),
                          g\<lparr>numpy_random_state := numpy_random_state g + 1,
                            torch_rng_state := torch_rng_state g + 1\<rparr>)),
      to_device = (\<lambda>m d g. (Inr (m + torch_cuda_rng_state g d),
                            g\<lparr>torch_cuda_rng_state := (\<lambda>x. torch_cuda_rng_state g x + 1)\<rparr>))\<rparr>"

definition failing_lib :: "(nat, nat, unit, nat) torch_lib" where
  "failing_lib = example_lib\<lparr>AlphaFold := (\<lambda>_ g. (Inl ExternalError, g))\<rparr>"

definition example_rng :: "(nat, nat) rng_state" where
  "example_rng =
     \<lparr>numpy_random_state = 7, torch_rng_state = 8, torch_cuda_rng_state = (\<lambda>d. 9 + d)\<rparr>"

section \<open>Properties of the cadence validation\<close>

lemma assert_divisible_eq:
  "assert_divisible x y =
     (if y = 0 then Inl ZeroDivisionError else if y dvd x then Inr () else Inl AssertionError)"
  by (simp add: assert_divisible_def py_mod_def then_do_def py_assert_def dvd_eq_mod_eq_0)

lemma parse_args_eq:
  "parse_args a = (if code_cadence_invariant a then Inr a else Inl AssertionError)"
  unfolding parse_args_def assert_divisible_eq py_assert_def then_do_def
    code_cadence_invariant_def spec_cadence_invariant_def
  by (auto split: sum.splits)

text \<open>
  Claim C1, as the specification states it, fails: a configuration can satisfy every
  divisibility invariant the specification lists and still be rejected. The three
  configurations below do (a checkpoint interval that is not a multiple of the log
  interval; a warm-up length that is not a multiple of the accumulation length; a
  negative accumulation length), and \<open>parse_args\<close> raises \<open>AssertionError\<close> on each.
\<close>

theorem parse_args_rejects_spec_invariant:
  "spec_cadence_invariant (accepted_args\<lparr>log_every_iters := 8\<rparr>) \<and>
   parse_args (accepted_args\<lparr>log_every_iters := 8\<rparr>) = Inl AssertionError \<and>
   spec_cadence_invariant (accepted_args\<lparr>warmup_lr_iters := 2\<rparr>) \<and>
   parse_args (accepted_args\<lparr>warmup_lr_iters := 2\<rparr>) = Inl AssertionError \<and>
   spec_cadence_invariant (accepted_args\<lparr>gradient_accumulation_iters := - 4\<rparr>) \<and>
   parse_args (accepted_args\<lparr>gradient_accumulation_iters := - 4\<rparr>) = Inl AssertionError"
  by (simp add: parse_args_eq code_cadence_invariant_def spec_cadence_invariant_def
      accepted_args_def default_args_def)

text \<open>
  Claim C1, amended: \<open>parse_args\<close> returns the arguments exactly when they satisfy the
  invariant its assertions enforce, which is the invariant of the specification
  together with a positive accumulation length, a warm-up length that is a multiple of
  it, and a checkpoint interval that is a multiple of the log interval when both are
  enabled. Otherwise it raises \<open>AssertionError\<close> (never \<open>ZeroDivisionError\<close>), and the
  script ends with that exception before \<open>training\<close> has done anything. A non-positive
  interval is exempt from the constraints between intervals, not from being a multiple
  of the accumulation length. Whatever the other arguments are, \<open>val_every=40\<close> with
  \<open>checkpoint_every=7\<close> is rejected.
\<close>

theorem parse_args_cadence:
  "(parse_args a = Inr a \<longleftrightarrow> code_cadence_invariant a) \<and>
   (\<not> code_cadence_invariant a \<longrightarrow>
      parse_args a = Inl AssertionError \<and>
      main c env a = \<lparr>startup = [], iterations = [], shutdown = [],
                       status = Aborted AssertionError\<rparr>) \<and>
   (val_every_iters a = 40 \<and> checkpoint_every_iters a = 7 \<longrightarrow>
      parse_args a = Inl AssertionError)"
proof -
  have "\<not> code_cadence_invariant a"
    if "val_every_iters a = 40" "checkpoint_every_iters a = 7"
    using that by (simp add: code_cadence_invariant_def spec_cadence_invariant_def)
  then show ?thesis
    by (auto simp: parse_args_eq main_def)
qed

text \<open>
  The theorem at the two configurations of section 8 of the specification: the accepted
  one is returned unchanged, and the defaults with \<open>checkpoint_every=7\<close> are rejected
  before \<open>training\<close> starts.
\<close>

theorem parse_args_cadence_witness:
  "code_cadence_invariant accepted_args \<and>
   parse_args accepted_args = Inr accepted_args \<and>
   \<not> code_cadence_invariant (default_args\<lparr>checkpoint_every_iters := 7\<rparr>) \<and>
   parse_args (default_args\<lparr>checkpoint_every_iters := 7\<rparr>) = Inl AssertionError \<and>
   status (main example_config example_env (default_args\<lparr>checkpoint_every_iters := 7\<rparr>)) =
     Aborted AssertionError"
proof -
  have ok: "code_cadence_invariant accepted_args"
    by (simp add: code_cadence_invariant_def spec_cadence_invariant_def
        accepted_args_def default_args_def)
  have bad: "\<not> code_cadence_invariant (default_args\<lparr>checkpoint_every_iters := 7\<rparr>)"
    by (simp add: code_cadence_invariant_def spec_cadence_invariant_def default_args_def)
  from ok bad show ?thesis
    using parse_args_cadence [of accepted_args example_config example_env]
      parse_args_cadence
        [of "default_args\<lparr>checkpoint_every_iters := 7\<rparr>" example_config example_env]
    by simp
qed

section \<open>Properties of the learning-rate schedule\<close>


lemma lr_value_prev: "lr_value (s\<lparr>prev_lr_value := pv\<rparr>) i = lr_value s i"
  by (simp add: lr_value_def)

lemma new_scheduler_Inr:
  assumes "new_scheduler linspace il fl wl pl vb = Inr s"
  shows "0 \<le> wl \<and>
    (\<exists>start v. float_div il (max wl 1) = Inr start \<and> linspace start il (nat wl) = Inr v \<and>
       s = \<lparr>init_lr = il, final_lr = fl, warmup_lr_length = wl, init_lr_length = pl,
            verbose = vb, warmup_linspace = map v [0..<nat wl], prev_lr_value = None\<rparr>)"
  using assms
  by (auto simp: new_scheduler_def then_do_def py_assert_def torch_linspace_def
      split: sum.splits if_splits)

lemma to_double_small:
  "to_double 1 = 1" "to_double 3 = 3" "to_double (1 / 4096) = 1 / 4096"
  by (simp_all add: to_double_def binade_def pow2_def round_half_even_def Let_def)

lemma new_scheduler_example:
  "new_scheduler exact_linspace (3 / 4096) (1 / 16384) 3 5 False = Inr example_scheduler"
  by (simp add: new_scheduler_def then_do_def py_assert_def float_div_def torch_linspace_def
      exact_linspace_def example_scheduler_def to_double_def binade_def pow2_def
      round_half_even_def Let_def upt_rec)







lemma scheduler_call_same:
  assumes "lr_value s i = Inr r" "prev_lr_value s = Some r"
  shows "scheduler_call s opt i = Inr (s, opt)"
  using assms by (simp add: scheduler_call_def then_do_def)

lemma scheduler_call_differs:
  assumes "lr_value s i = Inr r" "prev_lr_value s \<noteq> Some r"
  shows "scheduler_call s opt i =
     Inr (s\<lparr>prev_lr_value := Some r\<rparr>,
          opt\<lparr>param_groups := map (\<lambda>g. g\<lparr>lr := r\<rparr>) (param_groups opt)\<rparr>)"
  using assms by (auto simp: scheduler_call_def then_do_def set_learning_rate_def)

lemma scheduler_call_repeat:
  assumes "scheduler_call s opt i = Inr (s', opt')"
  shows "scheduler_call s' opt' i = Inr (s', opt')"
  using assms
  by (auto simp: scheduler_call_def then_do_def lr_value_prev split: sum.splits if_splits)

lemma scheduler_call_rate:
  assumes "scheduler_call s opt i = Inr (s', opt')"
  shows "\<exists>r. lr_value s i = Inr r \<and> prev_lr_value s' = Some r \<and> lr_value s' = lr_value s"
  using assms
  by (auto simp: scheduler_call_def then_do_def lr_value_prev fun_eq_iff
      eq_commute [of "Some _"] split: sum.splits if_splits)

lemma scheduler_call_written:
  assumes "scheduler_call s opt i = Inr (s', opt')"
    and "prev_lr_value s = None \<or> (\<exists>r. last_written s opt r)"
  shows "\<exists>r. last_written s' opt' r \<and> lr_value s i = Inr r"
  using assms
  by (auto simp: scheduler_call_def then_do_def last_written_def set_learning_rate_def
      list_all_iff split: sum.splits if_splits)

lemma scheduler_calls_written:
  assumes "scheduler_calls s opt is = Inr (s', opt')" "is \<noteq> []"
    and "prev_lr_value s = None \<or> (\<exists>r. last_written s opt r)"
  shows "\<exists>r. last_written s' opt' r \<and> lr_value s (last is) = Inr r"
  using assms
proof (induction "is" arbitrary: s opt)
  case Nil
  then show ?case by simp
next
  case (Cons i "is")
  from Cons.prems(1) obtain s1 opt1 where c: "scheduler_call s opt i = Inr (s1, opt1)"
    and r: "scheduler_calls s1 opt1 is = Inr (s', opt')"
    by (auto simp: then_do_def split: sum.splits)
  have w: "\<exists>r. last_written s1 opt1 r \<and> lr_value s i = Inr r"
    using scheduler_call_written [OF c Cons.prems(3)] .
  have same: "lr_value s1 = lr_value s"
    using scheduler_call_rate [OF c] by blast
  show ?case
  proof (cases "is = []")
    case True
    with r w show ?thesis by auto
  next
    case False
    from w have "prev_lr_value s1 = None \<or> (\<exists>r. last_written s1 opt1 r)" by blast
    from Cons.IH [OF r False this] False same show ?thesis by simp
  qed
qed

text \<open>
  Claim C3: a call of the scheduler whose computed rate is the last-applied value
  returns the scheduler and the optimizer unchanged; a call whose rate differs writes
  the rate into every parameter group (nothing else of the optimizer changes) and
  records it as the last-applied value. So a call repeated at the same iteration
  changes nothing, and after any non-empty sequence of calls on a fresh scheduler the
  last-applied value is the rate of the last call and stands in every parameter group.
\<close>

theorem scheduler_call_writes_only_on_change:
  "(lr_value s i = Inr r \<and> prev_lr_value s = Some r \<longrightarrow>
      scheduler_call s opt i = Inr (s, opt)) \<and>
   (lr_value s i = Inr r \<and> prev_lr_value s \<noteq> Some r \<longrightarrow>
      scheduler_call s opt i =
        Inr (s\<lparr>prev_lr_value := Some r\<rparr>,
             opt\<lparr>param_groups := map (\<lambda>g. g\<lparr>lr := r\<rparr>) (param_groups opt)\<rparr>)) \<and>
   (scheduler_call s opt i = Inr (s', opt') \<longrightarrow>
      scheduler_call s' opt' i = Inr (s', opt')) \<and>
   (new_scheduler linspace il fl wl pl vb = Inr s0 \<and> js \<noteq> [] \<and>
    scheduler_calls s0 opt0 js = Inr (s1, opt1) \<longrightarrow>
      (\<exists>q. last_written s1 opt1 q \<and> lr_value s0 (last js) = Inr q))"
proof -
  have "\<exists>q. last_written s1 opt1 q \<and> lr_value s0 (last js) = Inr q"
    if n: "new_scheduler linspace il fl wl pl vb = Inr s0" and js: "js \<noteq> []"
      and c: "scheduler_calls s0 opt0 js = Inr (s1, opt1)"
  proof -
    from new_scheduler_Inr [OF n] have "prev_lr_value s0 = None"
      by auto
    then show ?thesis using scheduler_calls_written [OF c js] by blast
  qed
  then show ?thesis
    using scheduler_call_same [of s i r opt] scheduler_call_differs [of s i r opt]
      scheduler_call_repeat [of s opt i s' opt']
    by blast
qed

text \<open>
  The theorem on the example scheduler, at iteration 4 of its plateau: the first call
  writes the rate \<open>3/4096\<close> into both parameter groups, the second call changes
  nothing, and after the two calls in sequence that rate is the last written one.
\<close>

theorem scheduler_call_writes_only_on_change_witness:
  "lr_value example_scheduler 4 = Inr (3 / 4096) \<and>
   prev_lr_value example_scheduler \<noteq> Some (3 / 4096) \<and>
   scheduler_call example_scheduler example_optimizer 4 =
     Inr (example_scheduler\<lparr>prev_lr_value := Some (3 / 4096)\<rparr>,
          \<lparr>param_groups = [\<lparr>lr = 3 / 4096\<rparr>, \<lparr>lr = 3 / 4096\<rparr>]\<rparr>) \<and>
   scheduler_call (example_scheduler\<lparr>prev_lr_value := Some (3 / 4096)\<rparr>)
       \<lparr>param_groups = [\<lparr>lr = 3 / 4096\<rparr>, \<lparr>lr = 3 / 4096\<rparr>]\<rparr> 4 =
     Inr (example_scheduler\<lparr>prev_lr_value := Some (3 / 4096)\<rparr>,
          \<lparr>param_groups = [\<lparr>lr = 3 / 4096\<rparr>, \<lparr>lr = 3 / 4096\<rparr>]\<rparr>) \<and>
   scheduler_calls example_scheduler example_optimizer [4, 4] =
     Inr (example_scheduler\<lparr>prev_lr_value := Some (3 / 4096)\<rparr>,
          \<lparr>param_groups = [\<lparr>lr = 3 / 4096\<rparr>, \<lparr>lr = 3 / 4096\<rparr>]\<rparr>) \<and>
   last_written (example_scheduler\<lparr>prev_lr_value := Some (3 / 4096)\<rparr>)
     \<lparr>param_groups = [\<lparr>lr = 3 / 4096\<rparr>, \<lparr>lr = 3 / 4096 :: real\<rparr>]\<rparr> (3 / 4096)"
proof -
  let ?s = "example_scheduler"
  let ?s' = "example_scheduler\<lparr>prev_lr_value := Some (3 / 4096)\<rparr>"
  let ?o' = "\<lparr>param_groups = [\<lparr>lr = 3 / 4096\<rparr>, \<lparr>lr = 3 / 4096 :: real\<rparr>]\<rparr>"
  have r: "lr_value ?s 4 = Inr (3 / 4096)" "lr_value ?s' 4 = Inr (3 / 4096)"
    by (simp_all add: lr_value_def example_scheduler_def)
  have p: "prev_lr_value ?s \<noteq> Some (3 / 4096)" "prev_lr_value ?s' = Some (3 / 4096)"
    by (simp_all add: example_scheduler_def)
  have c1: "scheduler_call ?s example_optimizer 4 = Inr (?s', ?o')"
    using scheduler_call_writes_only_on_change
      [of ?s 4 "3 / 4096" example_optimizer ?s ?o' exact_linspace 0 0 0 0 False ?s "[]"
        example_optimizer ?s ?o']
      r p
    by (simp add: example_optimizer_def)
  have c2: "scheduler_call ?s' ?o' 4 = Inr (?s', ?o')"
    using scheduler_call_writes_only_on_change
      [of ?s' 4 "3 / 4096" ?o' ?s ?o' exact_linspace 0 0 0 0 False ?s "[]" example_optimizer
        ?s ?o']
      r p
    by simp
  have cs: "scheduler_calls ?s example_optimizer [4, 4] = Inr (?s', ?o')"
    by (simp add: c1 c2 then_do_def)
  have "\<exists>q. last_written ?s' ?o' q \<and> lr_value ?s (last [4, 4]) = Inr q"
    using scheduler_call_writes_only_on_change
      [of ?s 4 "3 / 4096" example_optimizer ?s ?o' exact_linspace "3 / 4096" "1 / 16384" 3 5
        False ?s
        "[4, 4]" example_optimizer ?s' ?o']
      new_scheduler_example cs
    by simp
  then obtain q where q: "last_written ?s' ?o' q" "lr_value ?s (last [4, 4]) = Inr q"
    by blast
  from q(2) r(1) have "q = 3 / 4096" by simp
  with q(1) have w: "last_written ?s' ?o' (3 / 4096)" by blast
  from r(1) p(1) c1 c2 cs w show ?thesis by blast
qed


text \<open>
  With \<open>init_lr\<close> the double nearest to \<open>0.001\<close> and a warm-up of 256 iterations,
  the first element of the tensor is the start, the quotient \<open>init_lr / 256\<close>, which
  is exact. The double lies above \<open>1/1000\<close>, so the quotient lies above the tie
  \<open>0.00000390625\<close>, and the rate at iteration 1 is the double nearest to
  \<open>0.0000039063\<close>.
\<close>

lemma first_warmup_rate_example:
  "to_double (1 / 1000) = 1152921504606847 / 2 ^ 60 \<and>
   scheduled_rate exact_linspace (to_double (1 / 1000)) (1 / 16384) 256 5000 1 =
     Inr (to_double (39063 / 10 ^ 10))"
proof -
  define il where "il = to_double (1 / 1000)"
  have il: "il = 1152921504606847 / 2 ^ 60"
    unfolding il_def
    by (simp add: to_double_def binade_def pow2_def round_half_even_def Let_def)
  have d: "float_div il 256 = Inr (il / 256)"
    unfolding il
    by (simp add: float_div_def to_double_def binade_def pow2_def round_half_even_def Let_def)
  have r: "py_round (il / 256) 10 = to_double (39063 / 10 ^ 10)"
    unfolding il by (simp add: py_round_def round_half_even_def Let_def)
  have "scheduled_rate exact_linspace il (1 / 16384) 256 5000 1 =
     Inr (to_double (39063 / 10 ^ 10))"
    by (simp add: scheduled_rate_def new_scheduler_def then_do_def py_assert_def d
        torch_linspace_def exact_linspace_def lr_value_def tensor_item_def r)
  with il show ?thesis unfolding il_def by simp
qed




section \<open>Properties of the validation cycle\<close>

lemma validation_loop_Inr:
  "validation_loop f dl acc = Inr ms \<Longrightarrow>
     ms = acc @ map (sample_metrics f) dl \<and>
     list_all (\<lambda>b. length (batch_id b) = 1 \<and> \<not> isl (f b)) dl"
proof (induction dl arbitrary: acc)
  case Nil
  then show ?case by simp
next
  case (Cons b dl)
  from Cons.prems obtain v where b: "length (batch_id b) = 1" "f b = Inr v"
    and rest: "validation_loop f dl (acc @ [sample_metrics f b]) = Inr ms"
    by (auto simp: sample_metrics_def split: if_splits sum.splits)
  from Cons.IH [OF rest] b show ?case by simp
qed

lemma validation_mode_eq:
  "snd (validation alphafold m dl) =
     (case fst (validation alphafold m dl) of Inl e \<Rightarrow> EvalMode | Inr ms \<Rightarrow> TrainMode)"
  by (simp add: validation_def Let_def split: sum.splits)

lemma validation_Inr:
  "fst (validation alphafold m dl) = Inr ms \<Longrightarrow>
     ms = map (sample_metrics (alphafold EvalMode)) dl"
  using validation_loop_Inr [of "alphafold EvalMode" dl "[]" ms]
  by (auto simp: validation_def Let_def split: sum.splits)

text \<open>
  Claim C7, as stated, fails: when an exception is raised in the middle of the cycle,
  control leaves \<open>validation\<close> with the module in evaluation mode. Below, the second
  batch carries no sample identity (the assertion on the batch fails), or the module
  raises on the second sample.
\<close>

theorem validation_error_leaves_eval_mode:
  "validation (alphafold_eval example_env 2 None) TrainMode
      [example_batch 0, (example_batch 1)\<lparr>batch_id := []\<rparr>] = (Inl AssertionError, EvalMode) \<and>
   validation failing_eval TrainMode [example_batch 0, example_batch 1] =
     (Inl ExternalError, EvalMode)"
  by (simp add: validation_def example_env_def example_batch_def failing_eval_def)

text \<open>
  Claim C7, amended: \<open>validation\<close> switches the module to evaluation mode on entry,
  and when it returns normally every sample of the dataloader has been evaluated in
  evaluation mode, in order, and the module is back in training mode; when an
  exception is raised mid-cycle, it propagates with the module left in evaluation mode.
\<close>

theorem validation_mode_on_exit:
  "snd (validation alphafold m dl) =
     (case fst (validation alphafold m dl) of Inl e \<Rightarrow> EvalMode | Inr ms \<Rightarrow> TrainMode) \<and>
   (\<forall>ms. fst (validation alphafold m dl) = Inr ms \<longrightarrow>
      ms = map (sample_metrics (alphafold EvalMode)) dl)"
  using validation_mode_eq [of alphafold m dl] validation_Inr [of alphafold m dl]
  by blast

text \<open>The theorem on the two samples of the example: a normal return, in training mode.\<close>

theorem validation_mode_on_exit_witness:
  "fst (validation (alphafold_eval example_env 2 None) EvalMode
          [example_batch 0, example_batch 1]) =
     Inr [\<lparr>lddt_ca = 1 / 2, val_index = 0, pdb_chain_id = ''1abc_A''\<rparr>,
          \<lparr>lddt_ca = 1 / 2, val_index = 1, pdb_chain_id = ''1abc_A''\<rparr>] \<and>
   snd (validation (alphafold_eval example_env 2 None) EvalMode
          [example_batch 0, example_batch 1]) = TrainMode"
proof -
  have r: "fst (validation (alphafold_eval example_env 2 None) EvalMode
          [example_batch 0, example_batch 1]) =
     Inr [\<lparr>lddt_ca = 1 / 2, val_index = 0, pdb_chain_id = ''1abc_A''\<rparr>,
          \<lparr>lddt_ca = 1 / 2, val_index = 1, pdb_chain_id = ''1abc_A''\<rparr>]"
    by (simp add: validation_def example_env_def example_batch_def)
  show ?thesis
    using validation_mode_on_exit
      [of "alphafold_eval example_env 2 None" EvalMode "[example_batch 0, example_batch 1]"]
    by (simp add: r)
qed

section \<open>Properties of the module creation\<close>

text \<open>
  Claim C9, as stated, fails on the calls that raise. With the seed \<open>2^64\<close> the
  NumPy generator is seeded with \<open>2^64 mod 2^32 = 0\<close>, then \<open>torch.manual_seed\<close>
  raises, and the exception leaves the function with the NumPy generator in the seeded
  state 0, not in its state 7 from before the call. With a constructor that raises,
  at seed 1234, all three generators are left as seeded: 1234, 1235 and 1236 where
  they were 7, 8 and 12.
\<close>

theorem create_alphafold_module_raise_leaves_seeded:
  "create_alphafold_module example_lib () (3::nat) (2 ^ 64) example_rng =
     (Inl RuntimeError, example_rng\<lparr>numpy_random_state := 0\<rparr>) \<and>
   numpy_random_state example_rng = 7 \<and>
   fst (create_alphafold_module failing_lib () (3::nat) 1234 example_rng) = Inl ExternalError \<and>
   numpy_random_state (snd (create_alphafold_module failing_lib () (3::nat) 1234 example_rng)) = 1234 \<and>
   torch_rng_state (snd (create_alphafold_module failing_lib () (3::nat) 1234 example_rng)) = 1235 \<and>
   torch_cuda_rng_state (snd (create_alphafold_module failing_lib () (3::nat) 1234 example_rng)) 3 = 1236 \<and>
   torch_rng_state example_rng = 8 \<and> torch_cuda_rng_state example_rng 3 = 12"
  by (simp add: create_alphafold_module_def Let_def py_mod_def np_random_seed_def
      torch_manual_seed_def example_lib_def failing_lib_def example_rng_def)

text \<open>
  Claim C9, amended: whenever \<open>create_alphafold_module\<close> returns a module, the NumPy
  generator state, the torch CPU generator state and the CUDA generator state of the
  target device are what they were before the call, whatever the constructor and the
  device transfer drew, and the module was constructed from generators seeded from the
  seed argument (NumPy with the seed modulo \<open>NUMPY_SEED_MODULUS\<close>). When the call
  raises, nothing is restored: the generators are unchanged if the exception comes
  from the modulo or from \<open>np.random.seed\<close>; the NumPy generator is left seeded if it
  comes from \<open>torch.manual_seed\<close>; and all generators are left as the constructor or
  the device transfer left them, starting from the seeded state, if it comes from one
  of these.
\<close>

theorem create_alphafold_module_rng_on_exit:
  "(\<forall>m. fst (create_alphafold_module lib cfg device seed g) = Inr m \<longrightarrow>
      numpy_random_state (snd (create_alphafold_module lib cfg device seed g)) =
        numpy_random_state g \<and>
      torch_rng_state (snd (create_alphafold_module lib cfg device seed g)) =
        torch_rng_state g \<and>
      torch_cuda_rng_state (snd (create_alphafold_module lib cfg device seed g)) device =
        torch_cuda_rng_state g device \<and>
      (\<exists>m0 g3. AlphaFold lib cfg (seeded_state lib seed g) = (Inr m0, g3) \<and>
         fst (to_device lib m0 device g3) = Inr m)) \<and>
   (\<forall>e. fst (create_alphafold_module lib cfg device seed g) = Inl e \<longrightarrow>
      snd (create_alphafold_module lib cfg device seed g) =
        (if NUMPY_SEED_MODULUS lib = 0 \<or>
            \<not> (0 \<le> seed mod NUMPY_SEED_MODULUS lib \<and> seed mod NUMPY_SEED_MODULUS lib < 2 ^ 32)
         then g
         else if \<not> (- (2 ^ 63) \<le> seed \<and> seed < 2 ^ 64)
         then g\<lparr>numpy_random_state := numpy_seeded lib (seed mod NUMPY_SEED_MODULUS lib)\<rparr>
         else case AlphaFold lib cfg (seeded_state lib seed g) of
                (Inl e', g3) \<Rightarrow> g3
              | (Inr m0, g3) \<Rightarrow> snd (to_device lib m0 device g3)))"
  by (auto simp: create_alphafold_module_def Let_def py_mod_def np_random_seed_def
      torch_manual_seed_def seeded_state_def split: sum.splits prod.splits if_splits)

text \<open>
  The theorem on the example library and device 3. At seed 1234 the module is built
  from the seeded generators and the three generator states are the initial 7, 8 and
  12; at seed \<open>2^64\<close> the call raises and the NumPy generator is left in state 0.
\<close>

theorem create_alphafold_module_rng_on_exit_witness:
  "fst (create_alphafold_module example_lib () (3::nat) 1234 example_rng) = Inr 3705 \<and>
   numpy_random_state (snd (create_alphafold_module example_lib () (3::nat) 1234 example_rng)) = 7 \<and>
   torch_rng_state (snd (create_alphafold_module example_lib () (3::nat) 1234 example_rng)) = 8 \<and>
   torch_cuda_rng_state (snd (create_alphafold_module example_lib () (3::nat) 1234 example_rng)) 3
     = 12 \<and>
   fst (create_alphafold_module example_lib () (3::nat) (2 ^ 64) example_rng) = Inl RuntimeError \<and>
   snd (create_alphafold_module example_lib () (3::nat) (2 ^ 64) example_rng) =
     example_rng\<lparr>numpy_random_state := 0\<rparr>"
proof -
  have r: "fst (create_alphafold_module example_lib () (3::nat) 1234 example_rng) = Inr 3705"
    by (simp add: create_alphafold_module_def Let_def py_mod_def np_random_seed_def
        torch_manual_seed_def example_lib_def example_rng_def)
  have f: "fst (create_alphafold_module example_lib () (3::nat) (2 ^ 64) example_rng) =
      Inl RuntimeError"
    by (simp add: create_alphafold_module_def Let_def py_mod_def np_random_seed_def
        torch_manual_seed_def example_lib_def example_rng_def)
  have g: "numpy_random_state example_rng = 7" "torch_rng_state example_rng = 8"
    "torch_cuda_rng_state example_rng 3 = 12"
    by (simp_all add: example_rng_def)
  have l: "NUMPY_SEED_MODULUS example_lib = 2 ^ 32" "numpy_seeded example_lib 0 = 0"
    by (simp_all add: example_lib_def)
  from create_alphafold_module_rng_on_exit [of example_lib "()" 3 1234 example_rng]
    create_alphafold_module_rng_on_exit [of example_lib "()" 3 "2 ^ 64" example_rng]
    r f g l show ?thesis
    by simp
qed

section \<open>Properties of the training loop\<close>

lemma first_raised_None: "first_raised sts = None \<longleftrightarrow> (\<forall>s\<in>set sts. raised s = None)"
  by (induction sts) (auto split: option.splits)

lemma training_loop_prefix:
  "\<exists>k\<le>length js. map iteration (training_loop c a env sts js) = take k js"
proof (induction js)
  case Nil
  then show ?case by simp
next
  case (Cons i js)
  then obtain k where k: "k \<le> length js" "map iteration (training_loop c a env sts js) = take k js"
    by blast
  have it: "iteration (train_val_iteration c a env sts i) = i"
    by (simp add: train_val_iteration_def Let_def split: option.splits)
  show ?case
  proof (cases "outcome (train_val_iteration c a env sts i) = Continue")
    case True
    with k it have "map iteration (training_loop c a env sts (i # js)) = take (Suc k) (i # js)"
      by (simp add: Let_def)
    with k(1) show ?thesis by (intro exI [of _ "Suc k"]) simp
  next
    case False
    with it have "map iteration (training_loop c a env sts (i # js)) = take 1 (i # js)"
      by (simp add: Let_def)
    then show ?thesis by (intro exI [of _ 1]) simp
  qed
qed

lemma training_loop_mem:
  "r \<in> set (training_loop c a env sts js) \<Longrightarrow> \<exists>i\<in>set js. r = train_val_iteration c a env sts i"
  by (induction js) (auto simp: Let_def split: if_splits)

lemma training_loop_butlast:
  "r \<in> set (butlast (training_loop c a env sts js)) \<Longrightarrow> outcome r = Continue"
  by (induction js) (auto simp: Let_def split: if_splits)

lemma training_loop_all_Continue:
  "loop_end (training_loop c a env sts js) = Continue \<Longrightarrow>
     map iteration (training_loop c a env sts js) = js \<and>
     (\<forall>r\<in>set (training_loop c a env sts js). outcome r = Continue)"
proof (induction js)
  case Nil
  then show ?case by simp
next
  case (Cons i js)
  have it: "iteration (train_val_iteration c a env sts i) = i"
    by (simp add: train_val_iteration_def Let_def split: option.splits)
  show ?case
  proof (cases "outcome (train_val_iteration c a env sts i) = Continue")
    case True
    with Cons.prems have "loop_end (training_loop c a env sts js) = Continue"
      by (auto simp: loop_end_def Let_def split: if_splits)
    from Cons.IH [OF this] True it show ?thesis by (simp add: Let_def)
  next
    case False
    with Cons.prems show ?thesis by (simp add: loop_end_def Let_def)
  qed
qed

lemma training_loop_not_Nil: "js \<noteq> [] \<Longrightarrow> training_loop c a env sts js \<noteq> []"
  by (cases js) (auto simp: Let_def)

lemma training_loop_last:
  "r \<in> set (training_loop c a env sts js) \<Longrightarrow> outcome r \<noteq> Continue \<Longrightarrow>
     r = last (training_loop c a env sts js)"
  by (induction js) (auto simp: Let_def training_loop_not_Nil split: if_splits)

lemma iteration_train_val_iteration [simp]:
  "iteration (train_val_iteration c a env sts i) = i"
  by (simp add: train_val_iteration_def Let_def split: option.splits)

lemma view_validate:
  assumes "\<And>e. late_event e \<Longrightarrow> \<not> p e"
  shows "process_view p (validate_phase c env i s) = process_view p s"
  using assms
  by (simp add: process_view_def validate_phase_def emit_def Let_def split: sum.splits)

lemma view_decide:
  assumes "\<And>e. late_event e \<Longrightarrow> \<not> p e"
  shows "process_view p (decide_phase a env i s) = process_view p s"
  using assms
  by (simp add: process_view_def decide_phase_def emit_def Let_def split: sum.splits)

lemma view_finish:
  assumes "\<And>e. late_event e \<Longrightarrow> \<not> p e"
  shows "process_view p (finish_validation_phase s) = process_view p s"
  using assms
  by (simp add: process_view_def finish_validation_phase_def emit_def)

lemma view_checkpoint:
  assumes "\<And>e. late_event e \<Longrightarrow> \<not> p e"
  shows "process_view p (checkpoint_phase a i b s) = process_view p s"
  using assms
  by (simp add: process_view_def checkpoint_phase_def emit_def)

lemma view_gather:
  assumes "\<And>e. late_event e \<Longrightarrow> \<not> p e"
  shows "process_view p (gather_phase a env ls s) = process_view p s"
  using assms
  by (simp add: process_view_def gather_phase_def emit_def)

lemma view_broadcast:
  assumes "\<And>e. late_event e \<Longrightarrow> \<not> p e"
  shows "process_view p (broadcast_phase a f s) = process_view p s"
  using assms
  by (simp add: process_view_def broadcast_phase_def emit_def)

lemma view_iteration:
  assumes late: "\<And>e. late_event e \<Longrightarrow> \<not> p e" and v: "val_every_iters a \<noteq> 0"
  shows "map (process_view p) (procs (train_val_iteration c a env sts0 i)) =
         map (process_view p) (map (train_phase c a env i) sts0)"
  using v
  unfolding train_val_iteration_def Let_def
  by (simp add: view_checkpoint [OF late] view_validate [OF late] view_decide [OF late]
      view_finish [OF late] view_gather [OF late] view_broadcast [OF late] o_def
      split: option.splits)

lemma backward_events_rank:
  "rank s = rank s' \<Longrightarrow> backward_events c a env s i = backward_events c a env s' i"
  by (simp add: backward_events_def)

lemma view_train_accumulation:
  assumes "gradient_accumulation_iters a \<noteq> 0"
  shows "process_view accumulation_event (train_phase c a env i s) =
     (rank s, is_main_process s,
      filter accumulation_event (trace s) @ backward_events c a env s i)"
  using assms
  by (simp add: process_view_def train_phase_def emit_def Let_def forward_events_def
      backward_events_def logging_events_def)

lemma processes_fresh:
  "s \<in> set (processes a ws) \<Longrightarrow> \<exists>r m. s = fresh_pstate r m"
  by (auto simp: processes_def split: if_splits)

lemma training_iterations:
  assumes "r \<in> set (iterations (training c env a))"
  shows "gradient_accumulation_iters a \<noteq> 0 \<and>
     (\<exists>i. resume_from_latest_checkpoint (checkpoint_iterations env) < i \<and>
          i \<le> num_train_iters a \<and>
          r = train_val_iteration c a env (processes a (world_size env)) i)"
proof -
  let ?np = "resume_from_latest_checkpoint (checkpoint_iterations env)"
  let ?rs = "training_loop c a env (processes a (world_size env)) [?np + 1..num_train_iters a]"
  from assms have acc: "gradient_accumulation_iters a \<noteq> 0"
    and mem: "r \<in> set ?rs"
    by (auto simp: training_def Let_def assert_divisible_eq
        split: if_splits sum.splits outcome.splits)
  from training_loop_mem [OF mem] obtain i where "i \<in> set [?np + 1..num_train_iters a]"
    and "r = train_val_iteration c a env (processes a (world_size env)) i"
    by blast
  then have "?np < i \<and> i \<le> num_train_iters a \<and>
      r = train_val_iteration c a env (processes a (world_size env)) i"
    by simp
  with acc show ?thesis by blast
qed

lemma acc_late: "late_event e \<Longrightarrow> \<not> accumulation_event e"
  by (cases e) simp_all

lemma accumulation_schedule0:
  assumes r: "r \<in> set (iterations (training c env a))" and s: "s \<in> set (procs r)"
    and v: "val_every_iters a \<noteq> 0"
  shows "filter accumulation_event (trace s) = backward_events c a env s (iteration r)"
proof -
  from training_iterations [OF r] obtain i where acc: "gradient_accumulation_iters a \<noteq> 0"
    and ri: "r = train_val_iteration c a env (processes a (world_size env)) i"
    by blast
  from s have "process_view accumulation_event s \<in>
      set (map (process_view accumulation_event) (procs r))" by simp
  also have "map (process_view accumulation_event) (procs r) =
      map (process_view accumulation_event)
        (map (train_phase c a env i) (processes a (world_size env)))"
    unfolding ri by (rule view_iteration [OF acc_late v])
  finally obtain s0 where s0: "s0 \<in> set (processes a (world_size env))"
    and eq: "process_view accumulation_event s =
        process_view accumulation_event (train_phase c a env i s0)"
    by auto
  from processes_fresh [OF s0] have t0: "trace s0 = []" by (auto simp: fresh_pstate_def)
  from eq have "rank s = rank s0"
    and "filter accumulation_event (trace s) = backward_events c a env s0 i"
    by (simp_all add: view_train_accumulation [OF acc] t0) (simp_all add: process_view_def)
  then show ?thesis
    using backward_events_rank [of s s0 c a env i] by (simp add: ri)
qed

lemma upto_1_8: "[1..8::int] = [1, 2, 3, 4, 5, 6, 7, 8]"
  by (simp add: upto_rec1 upto_rec_numeral)

lemmas example_defs = training_def resume_from_latest_checkpoint_def assert_divisible_def
  py_mod_def then_do_def py_assert_def loop_end_def upto_1_8 train_val_iteration_def
  Let_def processes_def main_rank_def fresh_pstate_def example_args_def default_args_def
  example_config_def example_env_def example_batch_def train_phase_def validate_phase_def
  gather_phase_def decide_phase_def broadcast_phase_def finish_validation_phase_def
  checkpoint_phase_def emit_def forward_events_def backward_events_def logging_events_def
  is_logging_enabled_def mean_lddt_ca_def validation_def

lemma example_run:
  "training example_config example_env example_args =
   \<lparr>startup =
       [CreateAlphafoldModule, CreateOptimizer, CreateLrScheduler, CreateSWA,
        ResumeFromLatestCheckpoint],
       iterations =
         [\<lparr>iteration = 1,
             procs =
               [\<lparr>rank = None, is_main_process = True,
                   trace =
                     [EpochStart, ManualSeed None 1, NextTrainBatch,
                      ForwardLoss, ZeroGrad, Backward (3 / 2)],
                   val_metrics_list = [], val_avg_lddt_ca = None,
                   stop_training_flag = False, raised = None\<rparr>],
             outcome = Continue\<rparr>,
          \<lparr>iteration = 2,
             procs =
               [\<lparr>rank = None, is_main_process = True,
                   trace =
                     [ManualSeed None 2, NextTrainBatch, ForwardLoss,
                      Backward (3 / 2), ClipGradNorm (1 / 10), LrScheduler 2,
                      OptimizerStep, SwaUpdate, EpochStop, EvalStart,
                      RunValidation True, EvalAccuracy (1 / 2),
                      SetStopFlag False, EmptyCache, EvalStop,
                      SaveCheckpoint 2 True (Some (1 / 2))],
                   val_metrics_list =
                     [\<lparr>lddt_ca = 1 / 2, val_index = 0,
                         pdb_chain_id = ''1abc_A''\<rparr>,
                      \<lparr>lddt_ca = 1 / 2, val_index = 1,
                         pdb_chain_id = ''1abc_A''\<rparr>],
                   val_avg_lddt_ca = Some (1 / 2), stop_training_flag = False,
                   raised = None\<rparr>],
             outcome = Continue\<rparr>,
          \<lparr>iteration = 3,
             procs =
               [\<lparr>rank = None, is_main_process = True,
                   trace =
                     [EpochStart, ManualSeed None 3, NextTrainBatch,
                      ForwardLoss, ZeroGrad, Backward (3 / 2)],
                   val_metrics_list = [], val_avg_lddt_ca = None,
                   stop_training_flag = False, raised = None\<rparr>],
             outcome = Continue\<rparr>,
          \<lparr>iteration = 4,
             procs =
               [\<lparr>rank = None, is_main_process = True,
                   trace =
                     [ManualSeed None 4, NextTrainBatch, ForwardLoss,
                      Backward (3 / 2), ClipGradNorm (1 / 10), LrScheduler 4,
                      OptimizerStep, SwaUpdate, EpochStop, EvalStart,
                      RunValidation True, EvalAccuracy (9 / 10),
                      SetStopFlag True, EmptyCache, EvalStop,
                      SaveCheckpoint 4 True (Some (9 / 10))],
                   val_metrics_list =
                     [\<lparr>lddt_ca = 9 / 10, val_index = 0,
                         pdb_chain_id = ''1abc_A''\<rparr>,
                      \<lparr>lddt_ca = 9 / 10, val_index = 1,
                         pdb_chain_id = ''1abc_A''\<rparr>],
                   val_avg_lddt_ca = Some (9 / 10), stop_training_flag = True,
                   raised = None\<rparr>],
             outcome = Break\<rparr>],
       shutdown = [RunStop], status = Completed\<rparr>"
  by (simp add: example_defs)

lemma example_run_distributed:
  "training example_config (example_env\<lparr>world_size := 2, len_validation_dataset := 4\<rparr>)
     (example_args\<lparr>distributed := True\<rparr>) =
   \<lparr>startup =
       [InitProcessGroup, CreateAlphafoldModule, CreateOptimizer,
        CreateLrScheduler, CreateSWA, ResumeFromLatestCheckpoint],
       iterations =
         [\<lparr>iteration = 1,
             procs =
               [\<lparr>rank = Some 0, is_main_process = True,
                   trace =
                     [EpochStart, ManualSeed (Some 0) 1, NextTrainBatch,
                      ForwardLoss, ZeroGrad, Backward (3 / 2)],
                   val_metrics_list = [], val_avg_lddt_ca = None,
                   stop_training_flag = False, raised = None\<rparr>,
                \<lparr>rank = Some 1, is_main_process = False,
                   trace =
                     [EpochStart, ManualSeed (Some 1) 1, NextTrainBatch,
                      ForwardLoss, ZeroGrad, Backward (3 / 2)],
                   val_metrics_list = [], val_avg_lddt_ca = None,
                   stop_training_flag = False, raised = None\<rparr>],
             outcome = Continue\<rparr>,
          \<lparr>iteration = 2,
             procs =
               [\<lparr>rank = Some 0, is_main_process = True,
                   trace =
                     [ManualSeed (Some 0) 2, NextTrainBatch, ForwardLoss,
                      Backward (3 / 2), ClipGradNorm (1 / 10), LrScheduler 2,
                      OptimizerStep, SwaUpdate, EpochStop, EvalStart,
                      RunValidation True, DistGatherValMetrics,
                      EvalAccuracy (1 / 2), SetStopFlag False, Broadcast False,
                      EmptyCache, EvalStop,
                      SaveCheckpoint 2 True (Some (1 / 2))],
                   val_metrics_list =
                     [\<lparr>lddt_ca = 1 / 2, val_index = 0,
                         pdb_chain_id = ''1abc_A''\<rparr>,
                      \<lparr>lddt_ca = 1 / 2, val_index = 1,
                         pdb_chain_id = ''1abc_A''\<rparr>,
                      \<lparr>lddt_ca = 1 / 2, val_index = 0,
                         pdb_chain_id = ''1abc_A''\<rparr>,
                      \<lparr>lddt_ca = 1 / 2, val_index = 1,
                         pdb_chain_id = ''1abc_A''\<rparr>],
                   val_avg_lddt_ca = Some (1 / 2), stop_training_flag = False,
                   raised = None\<rparr>,
                \<lparr>rank = Some 1, is_main_process = False,
                   trace =
                     [ManualSeed (Some 1) 2, NextTrainBatch, ForwardLoss,
                      Backward (3 / 2), ClipGradNorm (1 / 10), LrScheduler 2,
                      OptimizerStep, SwaUpdate, EpochStop, EvalStart,
                      RunValidation True, DistGatherValMetrics,
                      SetStopFlag False, Broadcast False, EmptyCache,
                      EvalStop],
                   val_metrics_list =
                     [\<lparr>lddt_ca = 1 / 2, val_index = 0,
                         pdb_chain_id = ''1abc_A''\<rparr>,
                      \<lparr>lddt_ca = 1 / 2, val_index = 1,
                         pdb_chain_id = ''1abc_A''\<rparr>,
                      \<lparr>lddt_ca = 1 / 2, val_index = 0,
                         pdb_chain_id = ''1abc_A''\<rparr>,
                      \<lparr>lddt_ca = 1 / 2, val_index = 1,
                         pdb_chain_id = ''1abc_A''\<rparr>],
                   val_avg_lddt_ca = None, stop_training_flag = False,
                   raised = None\<rparr>],
             outcome = Continue\<rparr>,
          \<lparr>iteration = 3,
             procs =
               [\<lparr>rank = Some 0, is_main_process = True,
                   trace =
                     [EpochStart, ManualSeed (Some 0) 3, NextTrainBatch,
                      ForwardLoss, ZeroGrad, Backward (3 / 2)],
                   val_metrics_list = [], val_avg_lddt_ca = None,
                   stop_training_flag = False, raised = None\<rparr>,
                \<lparr>rank = Some 1, is_main_process = False,
                   trace =
                     [EpochStart, ManualSeed (Some 1) 3, NextTrainBatch,
                      ForwardLoss, ZeroGrad, Backward (3 / 2)],
                   val_metrics_list = [], val_avg_lddt_ca = None,
                   stop_training_flag = False, raised = None\<rparr>],
             outcome = Continue\<rparr>,
          \<lparr>iteration = 4,
             procs =
               [\<lparr>rank = Some 0, is_main_process = True,
                   trace =
                     [ManualSeed (Some 0) 4, NextTrainBatch, ForwardLoss,
                      Backward (3 / 2), ClipGradNorm (1 / 10), LrScheduler 4,
                      OptimizerStep, SwaUpdate, EpochStop, EvalStart,
                      RunValidation True, DistGatherValMetrics,
                      EvalAccuracy (9 / 10), SetStopFlag True, Broadcast True,
                      EmptyCache, EvalStop,
                      SaveCheckpoint 4 True (Some (9 / 10))],
                   val_metrics_list =
                     [\<lparr>lddt_ca = 9 / 10, val_index = 0,
                         pdb_chain_id = ''1abc_A''\<rparr>,
                      \<lparr>lddt_ca = 9 / 10, val_index = 1,
                         pdb_chain_id = ''1abc_A''\<rparr>,
                      \<lparr>lddt_ca = 9 / 10, val_index = 0,
                         pdb_chain_id = ''1abc_A''\<rparr>,
                      \<lparr>lddt_ca = 9 / 10, val_index = 1,
                         pdb_chain_id = ''1abc_A''\<rparr>],
                   val_avg_lddt_ca = Some (9 / 10), stop_training_flag = True,
                   raised = None\<rparr>,
                \<lparr>rank = Some 1, is_main_process = False,
                   trace =
                     [ManualSeed (Some 1) 4, NextTrainBatch, ForwardLoss,
                      Backward (3 / 2), ClipGradNorm (1 / 10), LrScheduler 4,
                      OptimizerStep, SwaUpdate, EpochStop, EvalStart,
                      RunValidation True, DistGatherValMetrics,
                      SetStopFlag False, Broadcast True, EmptyCache, EvalStop],
                   val_metrics_list =
                     [\<lparr>lddt_ca = 9 / 10, val_index = 0,
                         pdb_chain_id = ''1abc_A''\<rparr>,
                      \<lparr>lddt_ca = 9 / 10, val_index = 1,
                         pdb_chain_id = ''1abc_A''\<rparr>,
                      \<lparr>lddt_ca = 9 / 10, val_index = 0,
                         pdb_chain_id = ''1abc_A''\<rparr>,
                      \<lparr>lddt_ca = 9 / 10, val_index = 1,
                         pdb_chain_id = ''1abc_A''\<rparr>],
                   val_avg_lddt_ca = None, stop_training_flag = True,
                   raised = None\<rparr>],
             outcome = Break\<rparr>],
       shutdown = [Barrier, RunStop], status = Completed\<rparr>"
  by (simp add: example_defs upt_rec)

lemma example_run_mismatch:
  "training example_config (example_env\<lparr>len_validation_dataset := 3\<rparr>) example_args =
   \<lparr>startup =
       [CreateAlphafoldModule, CreateOptimizer, CreateLrScheduler, CreateSWA,
        ResumeFromLatestCheckpoint],
       iterations =
         [\<lparr>iteration = 1,
             procs =
               [\<lparr>rank = None, is_main_process = True,
                   trace =
                     [EpochStart, ManualSeed None 1, NextTrainBatch,
                      ForwardLoss, ZeroGrad, Backward (3 / 2)],
                   val_metrics_list = [], val_avg_lddt_ca = None,
                   stop_training_flag = False, raised = None\<rparr>],
             outcome = Continue\<rparr>,
          \<lparr>iteration = 2,
             procs =
               [\<lparr>rank = None, is_main_process = True,
                   trace =
                     [ManualSeed None 2, NextTrainBatch, ForwardLoss,
                      Backward (3 / 2), ClipGradNorm (1 / 10), LrScheduler 2,
                      OptimizerStep, SwaUpdate, EpochStop, EvalStart,
                      RunValidation True],
                   val_metrics_list =
                     [\<lparr>lddt_ca = 1 / 2, val_index = 0,
                         pdb_chain_id = ''1abc_A''\<rparr>,
                      \<lparr>lddt_ca = 1 / 2, val_index = 1,
                         pdb_chain_id = ''1abc_A''\<rparr>],
                   val_avg_lddt_ca = None, stop_training_flag = False,
                   raised = Some AssertionError\<rparr>],
             outcome = Raised AssertionError\<rparr>],
       shutdown = [], status = Aborted AssertionError\<rparr>"
  by (simp add: example_defs)

lemma processes_Cons:
  assumes "distributed a \<longrightarrow> 0 < ws"
  shows "\<exists>ps. processes a ws =
           fresh_pstate (if distributed a then Some 0 else None) True # ps \<and>
         (\<forall>p\<in>set ps. \<exists>k. p = fresh_pstate (Some k) False)"
proof (cases "distributed a")
  case True
  with assms have "[0..<ws] = 0 # [1..<ws]" by (simp add: upt_rec)
  with True show ?thesis by (auto simp: processes_def main_rank_def)
next
  case False
  then show ?thesis by (simp add: processes_def)
qed

lemma train_phase_fields:
  "rank (train_phase c a env i s) = rank s"
  "is_main_process (train_phase c a env i s) = is_main_process s"
  "val_metrics_list (train_phase c a env i s) = val_metrics_list s"
  "val_avg_lddt_ca (train_phase c a env i s) = val_avg_lddt_ca s"
  "stop_training_flag (train_phase c a env i s) = stop_training_flag s"
  "gradient_accumulation_iters a \<noteq> 0 \<Longrightarrow> raised (train_phase c a env i s) = raised s"
  by (simp_all add: train_phase_def emit_def Let_def)

lemma validate_phase_fields:
  "rank (validate_phase c env i s) = rank s"
  "is_main_process (validate_phase c env i s) = is_main_process s"
  "val_avg_lddt_ca (validate_phase c env i s) = val_avg_lddt_ca s"
  "stop_training_flag (validate_phase c env i s) = stop_training_flag s"
  "raised (validate_phase c env i s) =
     (case local_val_result env i (rank s) of Inl e \<Rightarrow> Some e | Inr ms \<Rightarrow> raised s)"
  "val_metrics_list (validate_phase c env i s) =
     (case local_val_result env i (rank s) of Inl e \<Rightarrow> val_metrics_list s | Inr ms \<Rightarrow> ms)"
  by (simp_all add: validate_phase_def local_val_result_def emit_def Let_def split: sum.splits)

lemma gather_phase_fields:
  "rank (gather_phase a env ls s) = rank s"
  "is_main_process (gather_phase a env ls s) = is_main_process s"
  "val_avg_lddt_ca (gather_phase a env ls s) = val_avg_lddt_ca s"
  "stop_training_flag (gather_phase a env ls s) = stop_training_flag s"
  "raised (gather_phase a env ls s) = raised s"
  "val_metrics_list (gather_phase a env ls s) =
     (if distributed a then dist_gather_val_metrics env (is_main_process s) ls
      else val_metrics_list s)"
  by (simp_all add: gather_phase_def emit_def)

lemma decide_phase_fields:
  "rank (decide_phase a env i s) = rank s"
  "is_main_process (decide_phase a env i s) = is_main_process s"
  "val_metrics_list (decide_phase a env i s) = val_metrics_list s"
  "raised (decide_phase a env i s) =
     (if is_main_process s
      then (if val_metrics_list s = [] then Some KeyError
            else if length (val_metrics_list s) \<noteq> len_validation_dataset env
            then Some AssertionError else raised s)
      else raised s)"
  "stop_training_flag (decide_phase a env i s) =
     (if is_main_process s
      then (if count_ok env (val_metrics_list s)
            then target_avg_lddt_ca_value a \<le> mean_of (val_metrics_list s)
            else stop_training_flag s)
      else False)"
  "val_avg_lddt_ca (decide_phase a env i s) =
     (if is_main_process s \<and> count_ok env (val_metrics_list s)
      then Some (mean_of (val_metrics_list s)) else val_avg_lddt_ca s)"
  by (simp_all add: decide_phase_def mean_lddt_ca_def emit_def count_ok_def mean_of_def)

lemma broadcast_phase_fields:
  "rank (broadcast_phase a f s) = rank s"
  "is_main_process (broadcast_phase a f s) = is_main_process s"
  "val_metrics_list (broadcast_phase a f s) = val_metrics_list s"
  "val_avg_lddt_ca (broadcast_phase a f s) = val_avg_lddt_ca s"
  "raised (broadcast_phase a f s) = raised s"
  "stop_training_flag (broadcast_phase a f s) = (if distributed a then f else stop_training_flag s)"
  by (simp_all add: broadcast_phase_def emit_def)

lemma finish_validation_phase_fields:
  "rank (finish_validation_phase s) = rank s"
  "is_main_process (finish_validation_phase s) = is_main_process s"
  "val_metrics_list (finish_validation_phase s) = val_metrics_list s"
  "val_avg_lddt_ca (finish_validation_phase s) = val_avg_lddt_ca s"
  "raised (finish_validation_phase s) = raised s"
  "stop_training_flag (finish_validation_phase s) = stop_training_flag s"
  by (simp_all add: finish_validation_phase_def emit_def)

lemma checkpoint_phase_fields:
  "rank (checkpoint_phase a i b s) = rank s"
  "is_main_process (checkpoint_phase a i b s) = is_main_process s"
  "val_metrics_list (checkpoint_phase a i b s) = val_metrics_list s"
  "val_avg_lddt_ca (checkpoint_phase a i b s) = val_avg_lddt_ca s"
  "raised (checkpoint_phase a i b s) = raised s"
  "stop_training_flag (checkpoint_phase a i b s) = stop_training_flag s"
  by (simp_all add: checkpoint_phase_def emit_def)

lemmas phase_fields = train_phase_fields validate_phase_fields gather_phase_fields
  decide_phase_fields broadcast_phase_fields finish_validation_phase_fields
  checkpoint_phase_fields

lemma late_train_phase:
  "gradient_accumulation_iters a \<noteq> 0 \<Longrightarrow>
     filter late_event (trace (train_phase c a env i s)) = filter late_event (trace s)"
  by (simp add: train_phase_def emit_def Let_def forward_events_def backward_events_def
      logging_events_def)

lemma late_validate_phase:
  "filter late_event (trace (validate_phase c env i s)) =
     filter late_event (trace s) @ [EvalStart, RunValidation (swa_enabled c)]"
  by (simp add: validate_phase_def emit_def Let_def split: sum.splits)

lemma late_gather_phase:
  "filter late_event (trace (gather_phase a env ls s)) =
     filter late_event (trace s) @ (if distributed a then [DistGatherValMetrics] else [])"
  by (simp add: gather_phase_def emit_def)

lemma late_decide_phase:
  "filter late_event (trace (decide_phase a env i s)) =
     filter late_event (trace s) @
     (if is_main_process s
      then (if count_ok env (val_metrics_list s)
            then [EvalAccuracy (mean_of (val_metrics_list s))] @
                 (if is_logging_enabled a
                  then [SaveValLog i (mean_of (val_metrics_list s)) (length (val_metrics_list s))]
                  else []) @
                 [SetStopFlag (target_avg_lddt_ca_value a \<le> mean_of (val_metrics_list s))]
            else [])
      else [SetStopFlag False])"
  by (simp add: decide_phase_def mean_lddt_ca_def emit_def count_ok_def mean_of_def)

lemma late_broadcast_phase:
  "filter late_event (trace (broadcast_phase a f s)) =
     filter late_event (trace s) @ (if distributed a then [Broadcast f] else [])"
  by (simp add: broadcast_phase_def emit_def)

lemma late_finish_validation_phase:
  "filter late_event (trace (finish_validation_phase s)) =
     filter late_event (trace s) @ [EmptyCache, EvalStop]"
  by (simp add: finish_validation_phase_def emit_def)

lemma late_checkpoint_phase:
  "filter late_event (trace (checkpoint_phase a i b s)) =
     filter late_event (trace s) @
     (if is_main_process s \<and> checkpoint_every_iters a > 0 \<and> i mod checkpoint_every_iters a = 0
      then [SaveCheckpoint i b (if b then val_avg_lddt_ca s else None)] else [])"
  by (simp add: checkpoint_phase_def emit_def)

lemmas late_phases = late_train_phase late_validate_phase late_gather_phase late_decide_phase
  late_broadcast_phase late_finish_validation_phase late_checkpoint_phase

lemma fresh_pstate_fields:
  "rank (fresh_pstate rk m) = rk"
  "is_main_process (fresh_pstate rk m) = m"
  "trace (fresh_pstate rk m) = []"
  "val_metrics_list (fresh_pstate rk m) = []"
  "val_avg_lddt_ca (fresh_pstate rk m) = None"
  "stop_training_flag (fresh_pstate rk m) = False"
  "raised (fresh_pstate rk m) = None"
  by (simp_all add: fresh_pstate_def)

lemma processes_raised: "s \<in> set (processes a ws) \<Longrightarrow> raised s = None \<and> trace s = []"
  using processes_fresh [of s a ws] by (auto simp: fresh_pstate_fields)

lemma first_raised_train:
  assumes "gradient_accumulation_iters a \<noteq> 0" "\<forall>s\<in>set sts0. raised s = None"
  shows "first_raised (map (train_phase c a env i) sts0) = None"
  using assms by (simp add: first_raised_None train_phase_fields)

lemma iteration_plain:
  assumes "val_every_iters a \<noteq> 0" "gradient_accumulation_iters a \<noteq> 0"
    and "i mod val_every_iters a \<noteq> 0" "\<forall>s\<in>set sts0. raised s = None"
  shows "train_val_iteration c a env sts0 i =
     \<lparr>iteration = i,
      procs = map (\<lambda>s. checkpoint_phase a i False (train_phase c a env i s)) sts0,
      outcome = Continue\<rparr>"
  using assms first_raised_train [OF assms(2,4), of c env i]
  by (simp add: train_val_iteration_def Let_def)

lemma iteration_validation_raised:
  assumes v: "val_every_iters a \<noteq> 0" and acc: "gradient_accumulation_iters a \<noteq> 0"
    and iv: "i mod val_every_iters a = 0" and fr: "\<forall>s\<in>set sts0. raised s = None"
    and bad: "\<exists>s\<in>set sts0. isl (local_val_result env i (rank s))"
  shows "(\<exists>e. outcome (train_val_iteration c a env sts0 i) = Raised e) \<and>
     procs (train_val_iteration c a env sts0 i) =
       map (\<lambda>s. validate_phase c env i (train_phase c a env i s)) sts0"
proof -
  let ?V = "\<lambda>s. validate_phase c env i (train_phase c a env i s)"
  from bad obtain s where s: "s \<in> set sts0" "isl (local_val_result env i (rank s))" by blast
  then have "raised (?V s) \<noteq> None"
    by (cases "local_val_result env i (rank s)") (simp_all add: phase_fields)
  with s(1) have "first_raised (map ?V sts0) \<noteq> None"
    by (auto simp: first_raised_None)
  then obtain e where e: "first_raised (map ?V sts0) = Some e" by auto
  show ?thesis
    using v iv e first_raised_train [OF acc fr, of c env i]
    by (simp add: train_val_iteration_def Let_def o_def)
qed

lemma iteration_validation_ok:
  fixes c a env i
  defines "P \<equiv> processes a (world_size env)"
  defines "G \<equiv> gathered_on_main a env i"
  defines "D \<equiv> \<lambda>s. decide_phase a env i
        (gather_phase a env (map (\<lambda>s. projr (local_val_result env i (rank s))) P)
          (validate_phase c env i (train_phase c a env i s)))"
  defines "r \<equiv> train_val_iteration c a env P i"
  assumes v: "val_every_iters a \<noteq> 0" and acc: "gradient_accumulation_iters a \<noteq> 0"
    and iv: "i mod val_every_iters a = 0" and ws: "distributed a \<longrightarrow> 0 < world_size env"
    and ok: "\<forall>s\<in>set P. \<not> isl (local_val_result env i (rank s))"
  shows "\<not> count_ok env G \<Longrightarrow>
           outcome r = Raised (if G = [] then KeyError else AssertionError) \<and> procs r = map D P"
    and "count_ok env G \<Longrightarrow>
           outcome r = (if target_avg_lddt_ca_value a \<le> mean_of G then Break else Continue) \<and>
           procs r = map (\<lambda>s. checkpoint_phase a i True (finish_validation_phase
                       (broadcast_phase a (target_avg_lddt_ca_value a \<le> mean_of G) (D s)))) P"
    and "\<forall>s\<in>set P. is_main_process s \<longrightarrow> val_metrics_list (D s) = G"
proof -
  let ?V = "\<lambda>s. validate_phase c env i (train_phase c a env i s)"
  let ?L = "map (\<lambda>s. projr (local_val_result env i (rank s))) P"
  let ?f = "target_avg_lddt_ca_value a \<le> mean_of G"
  have fr: "\<forall>s\<in>set P. raised s = None"
    unfolding P_def using processes_raised by blast
  have r1: "first_raised (map (train_phase c a env i) P) = None"
    by (rule first_raised_train [OF acc fr])
  have r2: "first_raised (map ?V P) = None"
    using ok fr acc by (auto simp: first_raised_None phase_fields split: sum.splits)
  have L2: "map (\<lambda>s. val_metrics_list (validate_phase c env i (train_phase c a env i s))) P = ?L"
    using ok by (auto simp: phase_fields split: sum.splits)
  from processes_Cons [OF ws] obtain ps where
    P: "P = fresh_pstate (if distributed a then Some 0 else None) True # ps"
    and ps: "\<forall>p\<in>set ps. \<exists>k. p = fresh_pstate (Some k) False"
    unfolding P_def by blast
  let ?p0 = "fresh_pstate (if distributed a then Some 0 else None) True"
  have nd: "ps = []" if "\<not> distributed a"
    using that P unfolding P_def by (simp add: processes_def)
  have G0: "val_metrics_list (D ?p0) = G"
  proof (cases "distributed a")
    case True
    then show ?thesis
      by (simp add: D_def G_def gathered_on_main_def phase_fields fresh_pstate_fields P_def)
  next
    case False
    with ok P show ?thesis
      by (auto simp: D_def G_def gathered_on_main_def phase_fields fresh_pstate_fields
          split: sum.splits)
  qed
  have Gm: "\<forall>s\<in>set P. is_main_process s \<longrightarrow> val_metrics_list (D s) = G"
    using G0 ps by (auto simp: P fresh_pstate_fields)
  then show "\<forall>s\<in>set P. is_main_process s \<longrightarrow> val_metrics_list (D s) = G" .
  have Gg: "val_metrics_list (gather_phase a env ?L (?V ?p0)) = G"
    using G0 by (simp add: D_def decide_phase_fields)
  have rV: "\<forall>s\<in>set P. raised (?V s) = None"
    using r2 by (simp add: first_raised_None)
  then have rV0: "raised (?V ?p0) = None" by (simp add: P)
  have m0: "is_main_process (gather_phase a env ?L (?V ?p0))"
    by (simp add: gather_phase_fields validate_phase_fields train_phase_fields
        fresh_pstate_fields)
  have rp0: "raised (D ?p0) =
      (if G = [] then Some KeyError
       else if length G \<noteq> len_validation_dataset env then Some AssertionError else None)"
    unfolding D_def decide_phase_fields using m0 Gg rV0
    by (simp add: gather_phase_fields(5))
  have rps: "\<forall>p\<in>set ps. raised (D p) = None"
  proof
    fix p assume p: "p \<in> set ps"
    with ps obtain k where k: "p = fresh_pstate (Some k) False" by blast
    from p rV have "raised (?V p) = None" by (simp add: P)
    moreover have "\<not> is_main_process (gather_phase a env ?L (?V p))"
      by (simp add: k gather_phase_fields validate_phase_fields train_phase_fields
          fresh_pstate_fields)
    ultimately show "raised (D p) = None"
      unfolding D_def decide_phase_fields by (simp add: gather_phase_fields(5))
  qed
  note defs = r_def train_val_iteration_def Let_def
  {
    assume bad: "\<not> count_ok env G"
    then have "raised (D ?p0) = Some (if G = [] then KeyError else AssertionError)"
      using rp0 by (auto simp: count_ok_def)
    then have "first_raised (map D P) = Some (if G = [] then KeyError else AssertionError)"
      by (simp add: P)
    note fr3 = this [unfolded D_def]
    show "outcome r = Raised (if G = [] then KeyError else AssertionError) \<and>
        procs r = map D P"
      unfolding defs D_def using v iv
      by (simp add: r1 r2 L2 o_def fr3 del: map_eq_conv)
  }
  {
    assume good: "count_ok env G"
    then have "raised (D ?p0) = None" using rp0 by (auto simp: count_ok_def)
    with rps have "first_raised (map D P) = None"
      by (simp add: P first_raised_None)
    note fr3 = this [unfolded D_def]
    define b where "b = ?f"
    have mf: "stop_training_flag (map D P ! main_rank) = b"
      using good Gg m0 by (simp add: b_def P main_rank_def D_def decide_phase_fields)
    note mfu = mf [unfolded D_def]
    have flags: "\<forall>s\<in>set P. stop_training_flag (checkpoint_phase a i True
                  (finish_validation_phase (broadcast_phase a b (D s)))) = b"
    proof (cases "distributed a")
      case True
      then show ?thesis by (simp add: phase_fields)
    next
      case False
      with nd have "P = [?p0]" by (simp add: P)
      then show ?thesis using mf False
        by (simp add: phase_fields main_rank_def)
    qed
    have ne: "P \<noteq> []" by (simp add: P)
    have la: "list_all stop_training_flag (map (\<lambda>s. checkpoint_phase a i True
                  (finish_validation_phase (broadcast_phase a b (D s)))) P) = b"
      using flags ne by (cases P) (auto simp: list_all_iff)
    have ln: "list_all (\<lambda>s. \<not> stop_training_flag s) (map (\<lambda>s. checkpoint_phase a i True
                  (finish_validation_phase (broadcast_phase a b (D s)))) P) = (\<not> b)"
      using flags ne by (cases P) (auto simp: list_all_iff)
    have "outcome r = (if b then Break else Continue) \<and>
           procs r = map (\<lambda>s. checkpoint_phase a i True (finish_validation_phase
                       (broadcast_phase a b (D s)))) P"
    proof (cases b)
      case True
      with la [unfolded D_def] mfu show ?thesis
        unfolding defs D_def using v iv
        by (simp add: r1 r2 L2 o_def fr3 del: map_eq_conv)
    next
      case False
      with la [unfolded D_def] ln [unfolded D_def] mfu show ?thesis
        unfolding defs D_def using v iv
        by (simp add: r1 r2 L2 o_def fr3 del: map_eq_conv)
    qed
    then show "outcome r = (if ?f then Break else Continue) \<and>
           procs r = map (\<lambda>s. checkpoint_phase a i True (finish_validation_phase
                       (broadcast_phase a ?f (D s)))) P"
      unfolding b_def .
  }
qed

text \<open>
  Claim C2: in every iteration of a run and in every process, the actions on the
  gradients and the optimizer are, in this order: the zeroing of the gradients exactly
  when \<open>(i - 1) mod accumulation_iters = 0\<close>; the backward pass, on the loss divided by
  \<open>accumulation_iters\<close>; and exactly when \<open>i mod accumulation_iters = 0\<close> the
  gradient clipping to the configured norm (when clipping is configured), the
  learning-rate schedule at \<open>i\<close>, the optimizer step and the SWA update (when SWA is
  enabled). Nothing else of the iteration is such an action. The validation interval
  is taken to be non-zero: with a zero interval the first statement of the first
  iteration raises \<open>ZeroDivisionError\<close>.
\<close>

theorem accumulation_group_actions:
  assumes "r \<in> set (iterations (training c env a))" and "s \<in> set (procs r)"
    and "val_every_iters a \<noteq> 0"
  shows "gradient_accumulation_iters a \<noteq> 0 \<and>
     filter accumulation_event (trace s) =
       (if (iteration r - 1) mod gradient_accumulation_iters a = 0 then [ZeroGrad] else []) @
       [Backward (train_loss env (rank s) (iteration r) /
                  of_int (gradient_accumulation_iters a))] @
       (if iteration r mod gradient_accumulation_iters a = 0
        then (if gradient_clipping c then [ClipGradNorm (clip_grad_max_norm c)] else []) @
             [LrScheduler (iteration r), OptimizerStep] @
             (if swa_enabled c then [SwaUpdate] else [])
        else [])"
  using accumulation_schedule0 [OF assms] training_iterations [OF assms(1)]
  by (simp add: backward_events_def)

text \<open>
  The theorem on the example run: iteration 1 opens an accumulation group, iteration 2
  closes it.
\<close>

theorem accumulation_group_actions_witness:
  "hd (iterations (training example_config example_env example_args))
     \<in> set (iterations (training example_config example_env example_args)) \<and>
   hd (tl (iterations (training example_config example_env example_args)))
     \<in> set (iterations (training example_config example_env example_args)) \<and>
   hd (procs (hd (iterations (training example_config example_env example_args))))
     \<in> set (procs (hd (iterations (training example_config example_env example_args)))) \<and>
   hd (procs (hd (tl (iterations (training example_config example_env example_args)))))
     \<in> set (procs (hd (tl (iterations (training example_config example_env example_args))))) \<and>
   val_every_iters example_args \<noteq> 0 \<and>
   filter accumulation_event
     (trace (hd (procs (hd (iterations (training example_config example_env example_args)))))) =
     [ZeroGrad, Backward (3 / 2)] \<and>
   filter accumulation_event
     (trace (hd (procs (hd (tl (iterations (training example_config example_env example_args))))))) =
     [Backward (3 / 2), ClipGradNorm (1 / 10), LrScheduler 2, OptimizerStep, SwaUpdate]"
proof -
  let ?its = "iterations (training example_config example_env example_args)"
  have m: "hd ?its \<in> set ?its" "hd (tl ?its) \<in> set ?its"
    "hd (procs (hd ?its)) \<in> set (procs (hd ?its))"
    "hd (procs (hd (tl ?its))) \<in> set (procs (hd (tl ?its)))"
    by (simp_all add: example_run)
  have v: "val_every_iters example_args \<noteq> 0"
    by (simp add: example_args_def default_args_def)
  have i: "iteration (hd ?its) = 1" "iteration (hd (tl ?its)) = 2"
    "rank (hd (procs (hd ?its))) = None" "rank (hd (procs (hd (tl ?its)))) = None"
    by (simp_all add: example_run)
  have e: "gradient_accumulation_iters example_args = 2" "train_loss example_env None = (\<lambda>_. 3)"
    "gradient_clipping example_config" "swa_enabled example_config"
    "clip_grad_max_norm example_config = 1 / 10"
    by (simp_all add: example_args_def default_args_def example_env_def example_config_def)
  from accumulation_group_actions [OF m(1) m(3) v] accumulation_group_actions [OF m(2) m(4) v]
  have "filter accumulation_event (trace (hd (procs (hd ?its)))) = [ZeroGrad, Backward (3 / 2)]"
    and "filter accumulation_event (trace (hd (procs (hd (tl ?its))))) =
     [Backward (3 / 2), ClipGradNorm (1 / 10), LrScheduler 2, OptimizerStep, SwaUpdate]"
    by (simp_all add: i e)
  with m v show ?thesis by blast
qed

lemma length_procs_iteration:
  "length (procs (train_val_iteration c a env sts0 i)) = length sts0"
  by (simp add: train_val_iteration_def Let_def split: option.splits)

lemmas basic_fields = train_phase_fields(1-5) validate_phase_fields(1-4)
  gather_phase_fields(1-5) decide_phase_fields(1-3) broadcast_phase_fields
  finish_validation_phase_fields checkpoint_phase_fields fresh_pstate_fields

lemma validation_process_ok:
  fixes c a env i
  defines "P \<equiv> processes a (world_size env)"
  defines "G \<equiv> gathered_on_main a env i"
  defines "r \<equiv> train_val_iteration c a env P i"
  defines "f \<equiv> target_avg_lddt_ca_value a \<le> mean_of G"
  assumes v: "val_every_iters a \<noteq> 0" and acc: "gradient_accumulation_iters a \<noteq> 0"
    and iv: "i mod val_every_iters a = 0" and ws: "distributed a \<longrightarrow> 0 < world_size env"
    and ok: "\<forall>s\<in>set P. \<not> isl (local_val_result env i (rank s))"
    and good: "count_ok env G"
    and s: "s \<in> set (procs r)"
  shows "stop_training_flag s = f"
    and "raised s = None"
    and "is_main_process s \<Longrightarrow>
           val_avg_lddt_ca s = Some (mean_of G) \<and> val_metrics_list s = G \<and>
           filter late_event (trace s) =
             [EvalStart, RunValidation (swa_enabled c)] @
             (if distributed a then [DistGatherValMetrics] else []) @
             [EvalAccuracy (mean_of G)] @
             (if is_logging_enabled a then [SaveValLog i (mean_of G) (length G)] else []) @
             [SetStopFlag f] @
             (if distributed a then [Broadcast f] else []) @
             [EmptyCache, EvalStop] @
             (if checkpoint_every_iters a > 0 \<and> i mod checkpoint_every_iters a = 0
              then [SaveCheckpoint i True (Some (mean_of G))] else [])"
    and "\<not> is_main_process s \<Longrightarrow>
           distributed a \<and> val_avg_lddt_ca s = None \<and>
           filter late_event (trace s) =
             [EvalStart, RunValidation (swa_enabled c), DistGatherValMetrics,
              SetStopFlag False, Broadcast f, EmptyCache, EvalStop]"
    and "is_main_process s \<Longrightarrow> checkpoint_every_iters a > 0 \<Longrightarrow>
           i mod checkpoint_every_iters a = 0 \<Longrightarrow>
           last (trace s) = SaveCheckpoint i True (Some (mean_of G))"
proof -
  let ?L = "map (\<lambda>s. projr (local_val_result env i (rank s))) P"
  let ?D = "\<lambda>s. decide_phase a env i (gather_phase a env ?L
                (validate_phase c env i (train_phase c a env i s)))"
  have pr: "procs r = map (\<lambda>s. checkpoint_phase a i True
      (finish_validation_phase (broadcast_phase a f (?D s)))) P"
    using iteration_validation_ok(2) [OF v acc iv ws, where c = c] ok good
    unfolding P_def G_def r_def f_def by blast
  have m3: "\<forall>s\<in>set P. is_main_process s \<longrightarrow> val_metrics_list (?D s) = G"
    using iteration_validation_ok(3) [OF v acc iv ws, where c = c] ok
    unfolding P_def G_def r_def f_def by blast
  from s pr obtain s0 where s0: "s0 \<in> set P"
    and se: "s = checkpoint_phase a i True (finish_validation_phase (broadcast_phase a f (?D s0)))"
    by auto
  from processes_fresh [of s0 a "world_size env"] s0 obtain rk mm
    where fresh: "s0 = fresh_pstate rk mm" unfolding P_def by blast
  have nd: "\<not> distributed a \<Longrightarrow> mm"
    using s0 fresh unfolding P_def by (auto simp: processes_def fresh_pstate_def)
  have Gg: "mm \<Longrightarrow> val_metrics_list (gather_phase a env ?L
                (validate_phase c env i (train_phase c a env i (fresh_pstate rk mm)))) = G"
    using m3 s0 fresh by (simp add: decide_phase_fields(3) fresh_pstate_fields)
  have rv: "raised (validate_phase c env i (train_phase c a env i (fresh_pstate rk mm))) = None"
    using ok s0 fresh acc
    by (auto simp: validate_phase_fields train_phase_fields fresh_pstate_fields
        split: sum.splits)
  have tr0: "filter late_event (trace (validate_phase c env i
        (train_phase c a env i (fresh_pstate rk mm)))) =
      [EvalStart, RunValidation (swa_enabled c)]"
    using acc by (simp add: late_validate_phase late_train_phase fresh_pstate_fields)
  show "raised s = None"
    using rv good Gg
    by (cases mm) (simp_all add: se fresh basic_fields decide_phase_fields(4) count_ok_def)
  show "stop_training_flag s = f"
  proof (cases "distributed a")
    case True
    then show ?thesis by (simp add: se phase_fields)
  next
    case False
    with nd have mm by simp
    with False good Gg show ?thesis
      by (simp add: se fresh basic_fields decide_phase_fields(5) f_def)
  qed
  {
    assume main: "is_main_process s"
    then have mm: mm by (simp add: se fresh basic_fields)
    show "val_avg_lddt_ca s = Some (mean_of G) \<and> val_metrics_list s = G \<and>
           filter late_event (trace s) =
             [EvalStart, RunValidation (swa_enabled c)] @
             (if distributed a then [DistGatherValMetrics] else []) @
             [EvalAccuracy (mean_of G)] @
             (if is_logging_enabled a then [SaveValLog i (mean_of G) (length G)] else []) @
             [SetStopFlag f] @
             (if distributed a then [Broadcast f] else []) @
             [EmptyCache, EvalStop] @
             (if checkpoint_every_iters a > 0 \<and> i mod checkpoint_every_iters a = 0
              then [SaveCheckpoint i True (Some (mean_of G))] else [])"
      using mm good Gg [OF mm] tr0
      by (simp add: se fresh basic_fields decide_phase_fields(6) f_def
          late_checkpoint_phase late_finish_validation_phase late_broadcast_phase
          late_decide_phase late_gather_phase)
    {
      assume "checkpoint_every_iters a > 0" "i mod checkpoint_every_iters a = 0"
      then show "last (trace s) = SaveCheckpoint i True (Some (mean_of G))"
        using mm good Gg [OF mm]
        by (simp add: se fresh checkpoint_phase_def emit_def basic_fields
            decide_phase_fields(6))
    }
  }
  {
    assume other: "\<not> is_main_process s"
    then have mm: "\<not> mm" by (simp add: se fresh basic_fields)
    with nd have d: "distributed a" by blast
    show "distributed a \<and> val_avg_lddt_ca s = None \<and>
           filter late_event (trace s) =
             [EvalStart, RunValidation (swa_enabled c), DistGatherValMetrics,
              SetStopFlag False, Broadcast f, EmptyCache, EvalStop]"
      using mm d tr0
      by (simp add: se fresh basic_fields decide_phase_fields(6)
          late_checkpoint_phase late_finish_validation_phase late_broadcast_phase
          late_decide_phase late_gather_phase)
  }
qed


lemma validation_process_mismatch:
  fixes c a env i
  defines "P \<equiv> processes a (world_size env)"
  defines "G \<equiv> gathered_on_main a env i"
  defines "r \<equiv> train_val_iteration c a env P i"
  assumes v: "val_every_iters a \<noteq> 0" and acc: "gradient_accumulation_iters a \<noteq> 0"
    and iv: "i mod val_every_iters a = 0" and ws: "distributed a \<longrightarrow> 0 < world_size env"
    and ok: "\<forall>s\<in>set P. \<not> isl (local_val_result env i (rank s))"
    and bad: "\<not> count_ok env G"
    and s: "s \<in> set (procs r)"
  shows "is_main_process s \<Longrightarrow>
           raised s = Some (if G = [] then KeyError else AssertionError) \<and>
           val_metrics_list s = G \<and> val_avg_lddt_ca s = None \<and> \<not> stop_training_flag s \<and>
           filter late_event (trace s) =
             [EvalStart, RunValidation (swa_enabled c)] @
             (if distributed a then [DistGatherValMetrics] else [])"
    and "\<not> is_main_process s \<Longrightarrow>
           raised s = None \<and>
           filter late_event (trace s) =
             [EvalStart, RunValidation (swa_enabled c), DistGatherValMetrics, SetStopFlag False]"
proof -
  let ?L = "map (\<lambda>s. projr (local_val_result env i (rank s))) P"
  let ?D = "\<lambda>s. decide_phase a env i (gather_phase a env ?L
                (validate_phase c env i (train_phase c a env i s)))"
  have pr: "procs r = map ?D P"
    using iteration_validation_ok(1) [OF v acc iv ws, where c = c] ok bad
    unfolding P_def G_def r_def by blast
  have m3: "\<forall>s\<in>set P. is_main_process s \<longrightarrow> val_metrics_list (?D s) = G"
    using iteration_validation_ok(3) [OF v acc iv ws, where c = c] ok
    unfolding P_def G_def r_def by blast
  from s pr obtain s0 where s0: "s0 \<in> set P" and se: "s = ?D s0"
    by auto
  from processes_fresh [of s0 a "world_size env"] s0 obtain rk mm
    where fresh: "s0 = fresh_pstate rk mm" unfolding P_def by blast
  have nd: "\<not> distributed a \<Longrightarrow> mm"
    using s0 fresh unfolding P_def by (auto simp: processes_def fresh_pstate_def)
  have Gg: "mm \<Longrightarrow> val_metrics_list (gather_phase a env ?L
                (validate_phase c env i (train_phase c a env i (fresh_pstate rk mm)))) = G"
    using m3 s0 fresh by (simp add: decide_phase_fields(3) fresh_pstate_fields)
  have rv: "raised (validate_phase c env i (train_phase c a env i (fresh_pstate rk mm))) = None"
    using ok s0 fresh acc
    by (auto simp: validate_phase_fields train_phase_fields fresh_pstate_fields
        split: sum.splits)
  have tr0: "filter late_event (trace (validate_phase c env i
        (train_phase c a env i (fresh_pstate rk mm)))) =
      [EvalStart, RunValidation (swa_enabled c)]"
    using acc by (simp add: late_validate_phase late_train_phase fresh_pstate_fields)
  {
    assume main: "is_main_process s"
    then have mm: mm by (simp add: se fresh basic_fields)
    show "raised s = Some (if G = [] then KeyError else AssertionError) \<and>
           val_metrics_list s = G \<and> val_avg_lddt_ca s = None \<and> \<not> stop_training_flag s \<and>
           filter late_event (trace s) =
             [EvalStart, RunValidation (swa_enabled c)] @
             (if distributed a then [DistGatherValMetrics] else [])"
      using mm bad Gg [OF mm] tr0 rv
      by (auto simp: se fresh basic_fields decide_phase_fields late_decide_phase
          late_gather_phase count_ok_def)
  }
  {
    assume other: "\<not> is_main_process s"
    then have mm: "\<not> mm" by (simp add: se fresh basic_fields)
    with nd have d: "distributed a" by blast
    show "raised s = None \<and>
           filter late_event (trace s) =
             [EvalStart, RunValidation (swa_enabled c), DistGatherValMetrics, SetStopFlag False]"
      using mm d tr0 rv
      by (simp add: se fresh basic_fields decide_phase_fields(4) late_decide_phase
          late_gather_phase)
  }
qed

lemma iteration_outcome:
  fixes c a env i
  defines "P \<equiv> processes a (world_size env)"
  defines "G \<equiv> gathered_on_main a env i"
  defines "r \<equiv> train_val_iteration c a env P i"
  assumes acc: "gradient_accumulation_iters a \<noteq> 0"
    and ws: "distributed a \<longrightarrow> 0 < world_size env"
  shows "outcome r \<noteq> Desync"
    and "outcome r = Break \<Longrightarrow>
           val_every_iters a \<noteq> 0 \<and> i mod val_every_iters a = 0 \<and>
           (\<forall>s\<in>set P. \<not> isl (local_val_result env i (rank s))) \<and> count_ok env G \<and>
           target_avg_lddt_ca_value a \<le> mean_of G"
    and "outcome r = Continue \<Longrightarrow> i mod val_every_iters a = 0 \<Longrightarrow>
           val_every_iters a \<noteq> 0 \<and>
           (\<forall>s\<in>set P. \<not> isl (local_val_result env i (rank s))) \<and> count_ok env G \<and>
           \<not> target_avg_lddt_ca_value a \<le> mean_of G"
    and "outcome r = Continue \<Longrightarrow> val_every_iters a \<noteq> 0"
proof -
  have fr: "\<forall>s\<in>set P. raised s = None"
    unfolding P_def using processes_raised by blast
  have z: "val_every_iters a = 0 \<Longrightarrow> outcome r = Raised ZeroDivisionError"
    by (simp add: r_def train_val_iteration_def)
  have p: "val_every_iters a \<noteq> 0 \<Longrightarrow> i mod val_every_iters a \<noteq> 0 \<Longrightarrow> outcome r = Continue"
    using iteration_plain [OF _ acc _ fr, of i c env] by (simp add: r_def)
  have b: "val_every_iters a \<noteq> 0 \<Longrightarrow> i mod val_every_iters a = 0 \<Longrightarrow>
      \<exists>s\<in>set P. isl (local_val_result env i (rank s)) \<Longrightarrow> \<exists>e. outcome r = Raised e"
    using iteration_validation_raised [OF _ acc _ fr, of i env c] by (simp add: r_def)
  have m: "val_every_iters a \<noteq> 0 \<Longrightarrow> i mod val_every_iters a = 0 \<Longrightarrow>
      \<forall>s\<in>set P. \<not> isl (local_val_result env i (rank s)) \<Longrightarrow> \<not> count_ok env G \<Longrightarrow>
      \<exists>e. outcome r = Raised e"
    using iteration_validation_ok(1) [OF _ acc _ ws, where c = c and i = i]
    unfolding P_def G_def r_def by auto
  have g: "val_every_iters a \<noteq> 0 \<Longrightarrow> i mod val_every_iters a = 0 \<Longrightarrow>
      \<forall>s\<in>set P. \<not> isl (local_val_result env i (rank s)) \<Longrightarrow> count_ok env G \<Longrightarrow>
      outcome r = (if target_avg_lddt_ca_value a \<le> mean_of G then Break else Continue)"
    unfolding P_def G_def r_def
    by (rule iteration_validation_ok(2) [OF _ acc _ ws, where c = c and i = i, THEN conjunct1])
  show "outcome r \<noteq> Desync"
    using z p b m g by (metis outcome.distinct)
  show "outcome r = Break \<Longrightarrow>
           val_every_iters a \<noteq> 0 \<and> i mod val_every_iters a = 0 \<and>
           (\<forall>s\<in>set P. \<not> isl (local_val_result env i (rank s))) \<and> count_ok env G \<and>
           target_avg_lddt_ca_value a \<le> mean_of G"
    using z p b m g by (metis outcome.distinct)
  show "outcome r = Continue \<Longrightarrow> i mod val_every_iters a = 0 \<Longrightarrow>
           val_every_iters a \<noteq> 0 \<and>
           (\<forall>s\<in>set P. \<not> isl (local_val_result env i (rank s))) \<and> count_ok env G \<and>
           \<not> target_avg_lddt_ca_value a \<le> mean_of G"
    using z p b m g by (metis outcome.distinct)
  show "outcome r = Continue \<Longrightarrow> val_every_iters a \<noteq> 0"
    using z by auto
qed


lemma training_run:
  assumes "r \<in> set (iterations (training c env a))"
  shows "iterations (training c env a) =
      training_loop c a env (processes a (world_size env))
        [resume_from_latest_checkpoint (checkpoint_iterations env) + 1..num_train_iters a]"
    and "status (training c env a) =
      (case outcome (last (iterations (training c env a))) of
         Raised e \<Rightarrow> Aborted e | Desync \<Rightarrow> Deadlocked | _ \<Rightarrow> Completed)"
    and "outcome r \<noteq> Continue \<Longrightarrow> r = last (iterations (training c env a))"
proof -
  let ?np = "resume_from_latest_checkpoint (checkpoint_iterations env)"
  let ?rs = "training_loop c a env (processes a (world_size env)) [?np + 1..num_train_iters a]"
  from assms have its: "iterations (training c env a) = ?rs" and ne: "?rs \<noteq> []"
    by (auto simp: training_def Let_def assert_divisible_eq
        split: if_splits sum.splits outcome.splits)
  then show "iterations (training c env a) = ?rs" by simp
  from assms ne show "status (training c env a) =
      (case outcome (last (iterations (training c env a))) of
         Raised e \<Rightarrow> Aborted e | Desync \<Rightarrow> Deadlocked | _ \<Rightarrow> Completed)"
    by (auto simp: training_def Let_def assert_divisible_eq loop_end_def
        split: if_splits sum.splits outcome.splits)
  show "outcome r \<noteq> Continue \<Longrightarrow> r = last (iterations (training c env a))"
    using assms training_loop_last [of r c a env "processes a (world_size env)"] its
    by simp
qed

lemma procs_nonempty_world:
  assumes "s \<in> set (procs (train_val_iteration c a env (processes a ws) i))"
  shows "distributed a \<longrightarrow> 0 < ws"
proof -
  from assms have "length (procs (train_val_iteration c a env (processes a ws) i)) \<noteq> 0"
    by (auto simp del: length_0_conv)
  then have "processes a ws \<noteq> []"
    by (simp add: length_procs_iteration)
  then show ?thesis by (auto simp: processes_def)
qed

text \<open>
  Claim C10: when an iteration ends with the break on the stop flag and a checkpoint is
  due at it (checkpoint saving enabled, \<open>i mod checkpoint_every_iters = 0\<close>), the trace
  of the main process for that iteration ends with the saving of the checkpoint of
  iteration \<open>i\<close>, tagged as a validation checkpoint and carrying the validation metric,
  the mean over the gathered list, which is at least the target. The iteration is a
  validation iteration and the last of the run, and the run completes.
\<close>

theorem early_stop_saves_due_checkpoint:
  assumes r: "r \<in> set (iterations (training c env a))" and br: "outcome r = Break"
    and ck: "checkpoint_every_iters a > 0" "iteration r mod checkpoint_every_iters a = 0"
    and s: "s \<in> set (procs r)" and main: "is_main_process s"
  shows "iteration r mod val_every_iters a = 0 \<and>
     stop_training_flag s \<and>
     target_avg_lddt_ca_value a \<le> mean_of (gathered_on_main a env (iteration r)) \<and>
     val_avg_lddt_ca s = Some (mean_of (gathered_on_main a env (iteration r))) \<and>
     last (trace s) =
       SaveCheckpoint (iteration r) True (Some (mean_of (gathered_on_main a env (iteration r)))) \<and>
     filter late_event (trace s) =
       [EvalStart, RunValidation (swa_enabled c)] @
       (if distributed a then [DistGatherValMetrics] else []) @
       [EvalAccuracy (mean_of (gathered_on_main a env (iteration r)))] @
       (if is_logging_enabled a
        then [SaveValLog (iteration r) (mean_of (gathered_on_main a env (iteration r)))
                (length (gathered_on_main a env (iteration r)))]
        else []) @
       [SetStopFlag True] @
       (if distributed a then [Broadcast True] else []) @
       [EmptyCache, EvalStop,
        SaveCheckpoint (iteration r) True (Some (mean_of (gathered_on_main a env (iteration r))))] \<and>
     r = last (iterations (training c env a)) \<and>
     status (training c env a) = Completed"
proof -
  from training_iterations [OF r] obtain i where acc: "gradient_accumulation_iters a \<noteq> 0"
    and ri: "r = train_val_iteration c a env (processes a (world_size env)) i"
    by blast
  have i: "iteration r = i" by (simp add: ri)
  from s have ws: "distributed a \<longrightarrow> 0 < world_size env"
    unfolding ri by (rule procs_nonempty_world)
  from iteration_outcome(2) [OF acc ws, of c i] br
  have v: "val_every_iters a \<noteq> 0" and iv: "i mod val_every_iters a = 0"
    and ok: "\<forall>s\<in>set (processes a (world_size env)). \<not> isl (local_val_result env i (rank s))"
    and good: "count_ok env (gathered_on_main a env i)"
    and f: "target_avg_lddt_ca_value a \<le> mean_of (gathered_on_main a env i)"
    unfolding ri by blast+
  note p = validation_process_ok [OF v acc iv ws ok good s [unfolded ri]]
  from br have last: "r = last (iterations (training c env a))"
    using training_run(3) [OF r] by simp
  with br have st: "status (training c env a) = Completed"
    using training_run(2) [OF r] by simp
  from p(1) f have "stop_training_flag s" by simp
  moreover from p(3) [OF main] f ck
  have "val_avg_lddt_ca s = Some (mean_of (gathered_on_main a env i))"
    and "filter late_event (trace s) =
       [EvalStart, RunValidation (swa_enabled c)] @
       (if distributed a then [DistGatherValMetrics] else []) @
       [EvalAccuracy (mean_of (gathered_on_main a env i))] @
       (if is_logging_enabled a
        then [SaveValLog i (mean_of (gathered_on_main a env i))
                (length (gathered_on_main a env i))]
        else []) @
       [SetStopFlag True] @
       (if distributed a then [Broadcast True] else []) @
       [EmptyCache, EvalStop,
        SaveCheckpoint i True (Some (mean_of (gathered_on_main a env i)))]"
    by (simp_all add: i)
  moreover from p(5) [OF main] ck
  have "last (trace s) = SaveCheckpoint i True (Some (mean_of (gathered_on_main a env i)))"
    by (simp add: i)
  ultimately show ?thesis
    unfolding i using iv f last st by blast
qed


text \<open>
  The theorem on the example run with two processes: the stop at iteration 4, where
  the main process saves the checkpoint with the metric 9/10 as its last action.
\<close>

theorem early_stop_saves_due_checkpoint_witness:
  "last (iterations (training example_config
       (example_env\<lparr>world_size := 2, len_validation_dataset := 4\<rparr>)
       (example_args\<lparr>distributed := True\<rparr>)))
     \<in> set (iterations (training example_config
       (example_env\<lparr>world_size := 2, len_validation_dataset := 4\<rparr>)
       (example_args\<lparr>distributed := True\<rparr>))) \<and>
   outcome (last (iterations (training example_config
       (example_env\<lparr>world_size := 2, len_validation_dataset := 4\<rparr>)
       (example_args\<lparr>distributed := True\<rparr>)))) = Break \<and>
   iteration (last (iterations (training example_config
       (example_env\<lparr>world_size := 2, len_validation_dataset := 4\<rparr>)
       (example_args\<lparr>distributed := True\<rparr>)))) = 4 \<and>
   checkpoint_every_iters (example_args\<lparr>distributed := True\<rparr>) = 2 \<and>
   is_main_process (hd (procs (last (iterations (training example_config
       (example_env\<lparr>world_size := 2, len_validation_dataset := 4\<rparr>)
       (example_args\<lparr>distributed := True\<rparr>)))))) \<and>
   last (trace (hd (procs (last (iterations (training example_config
       (example_env\<lparr>world_size := 2, len_validation_dataset := 4\<rparr>)
       (example_args\<lparr>distributed := True\<rparr>))))))) =
     SaveCheckpoint 4 True (Some (9 / 10)) \<and>
   status (training example_config
       (example_env\<lparr>world_size := 2, len_validation_dataset := 4\<rparr>)
       (example_args\<lparr>distributed := True\<rparr>)) = Completed"
proof -
  let ?env = "example_env\<lparr>world_size := 2, len_validation_dataset := 4\<rparr>"
  let ?a = "example_args\<lparr>distributed := True\<rparr>"
  let ?its = "iterations (training example_config ?env ?a)"
  let ?r = "last ?its"
  let ?s = "hd (procs ?r)"
  have r: "?r \<in> set ?its" and br: "outcome ?r = Break" and i: "iteration ?r = 4"
    and s: "?s \<in> set (procs ?r)" and m: "is_main_process ?s"
    and av: "val_avg_lddt_ca ?s = Some (9 / 10)"
    by (simp_all add: example_run_distributed)
  have ck: "checkpoint_every_iters ?a = 2"
    by (simp add: example_args_def default_args_def)
  have ck': "0 < checkpoint_every_iters ?a" "iteration ?r mod checkpoint_every_iters ?a = 0"
    by (simp_all add: ck i)
  note th = early_stop_saves_due_checkpoint [OF r br ck' s m]
  from th av have "mean_of (gathered_on_main ?a ?env (iteration ?r)) = 9 / 10"
    by simp
  with th have "last (trace ?s) = SaveCheckpoint 4 True (Some (9 / 10))"
    and "status (training example_config ?env ?a) = Completed"
    by (simp_all add: i)
  with r br i ck m show ?thesis by blast
qed

lemma training_shutdown:
  "status (training c env a) \<noteq> Completed \<Longrightarrow> shutdown (training c env a) = []"
  by (auto simp: training_def Let_def split: if_splits sum.splits outcome.splits)

text \<open>
  Claim C8: at a validation iteration where \<open>validation\<close> returned in every process,
  a gathered list whose length is not the size of the validation set ends the run: the
  main process raises (\<open>AssertionError\<close> from the count check, or \<open>KeyError\<close> from
  the aggregation when nothing at all was gathered), the run is aborted with that
  exception at this iteration and never reaches its shutdown, and in the main process
  nothing follows the gathering: no accuracy event, no validation log, no stop flag, no
  checkpoint, and no aggregate is kept.
\<close>

theorem gathered_count_mismatch_is_fatal:
  assumes r: "r \<in> set (iterations (training c env a))"
    and v: "val_every_iters a \<noteq> 0" and iv: "iteration r mod val_every_iters a = 0"
    and ws: "distributed a \<longrightarrow> 0 < world_size env"
    and ok: "\<forall>p\<in>set (processes a (world_size env)).
               \<not> isl (local_val_result env (iteration r) (rank p))"
    and mis: "length (gathered_on_main a env (iteration r)) \<noteq> len_validation_dataset env"
  shows "outcome r =
       Raised (if gathered_on_main a env (iteration r) = [] then KeyError else AssertionError) \<and>
     status (training c env a) =
       Aborted (if gathered_on_main a env (iteration r) = [] then KeyError else AssertionError) \<and>
     r = last (iterations (training c env a)) \<and>
     shutdown (training c env a) = [] \<and>
     (\<forall>s\<in>set (procs r).
        (is_main_process s \<longrightarrow>
           raised s =
             Some (if gathered_on_main a env (iteration r) = [] then KeyError
                   else AssertionError) \<and>
           val_metrics_list s = gathered_on_main a env (iteration r) \<and>
           val_avg_lddt_ca s = None \<and> \<not> stop_training_flag s \<and>
           filter late_event (trace s) =
             [EvalStart, RunValidation (swa_enabled c)] @
             (if distributed a then [DistGatherValMetrics] else [])) \<and>
        (\<not> is_main_process s \<longrightarrow>
           filter late_event (trace s) =
             [EvalStart, RunValidation (swa_enabled c), DistGatherValMetrics,
              SetStopFlag False]))"
proof -
  from training_iterations [OF r] obtain i where acc: "gradient_accumulation_iters a \<noteq> 0"
    and ri: "r = train_val_iteration c a env (processes a (world_size env)) i"
    by blast
  have i: "iteration r = i" by (simp add: ri)
  let ?G = "gathered_on_main a env i"
  let ?e = "if ?G = [] then KeyError else AssertionError"
  from mis have bad: "\<not> count_ok env ?G" by (simp add: count_ok_def i)
  note ok' = ok [unfolded i]
  have oc: "outcome r = Raised ?e"
    unfolding ri
    by (rule iteration_validation_ok(1) [OF v acc iv [unfolded i] ws ok' bad, THEN conjunct1])
  then have last: "r = last (iterations (training c env a))"
    using training_run(3) [OF r] by simp
  with oc have st: "status (training c env a) = Aborted ?e"
    using training_run(2) [OF r] by simp
  then have sh: "shutdown (training c env a) = []"
    by (simp add: training_shutdown)
  note p = validation_process_mismatch [OF v acc iv [unfolded i] ws ok' bad]
  have "\<forall>s\<in>set (procs r).
        (is_main_process s \<longrightarrow>
           raised s = Some ?e \<and> val_metrics_list s = ?G \<and>
           val_avg_lddt_ca s = None \<and> \<not> stop_training_flag s \<and>
           filter late_event (trace s) =
             [EvalStart, RunValidation (swa_enabled c)] @
             (if distributed a then [DistGatherValMetrics] else [])) \<and>
        (\<not> is_main_process s \<longrightarrow>
           filter late_event (trace s) =
             [EvalStart, RunValidation (swa_enabled c), DistGatherValMetrics,
              SetStopFlag False])"
    using p unfolding ri by blast
  with oc st last sh show ?thesis unfolding i by blast
qed

text \<open>
  The theorem on the example run with a validation set declared to have three samples:
  two are gathered at iteration 2 and the run aborts there.
\<close>

theorem gathered_count_mismatch_is_fatal_witness:
  "last (iterations (training example_config (example_env\<lparr>len_validation_dataset := 3\<rparr>)
       example_args))
     \<in> set (iterations (training example_config (example_env\<lparr>len_validation_dataset := 3\<rparr>)
          example_args)) \<and>
   iteration (last (iterations (training example_config
       (example_env\<lparr>len_validation_dataset := 3\<rparr>) example_args))) = 2 \<and>
   length (gathered_on_main example_args (example_env\<lparr>len_validation_dataset := 3\<rparr>) 2) = 2 \<and>
   len_validation_dataset (example_env\<lparr>len_validation_dataset := 3\<rparr>) = 3 \<and>
   outcome (last (iterations (training example_config
       (example_env\<lparr>len_validation_dataset := 3\<rparr>) example_args))) = Raised AssertionError \<and>
   status (training example_config (example_env\<lparr>len_validation_dataset := 3\<rparr>) example_args) =
     Aborted AssertionError \<and>
   shutdown (training example_config (example_env\<lparr>len_validation_dataset := 3\<rparr>) example_args) =
     []"
proof -
  let ?env = "example_env\<lparr>len_validation_dataset := 3\<rparr>"
  let ?its = "iterations (training example_config ?env example_args)"
  let ?r = "last ?its"
  have r: "?r \<in> set ?its" and i: "iteration ?r = 2"
    by (simp_all add: example_run_mismatch)
  have ve: "val_every_iters example_args = 2" "\<not> distributed example_args"
    by (simp_all add: example_args_def default_args_def)
  have a: "val_every_iters example_args \<noteq> 0" "iteration ?r mod val_every_iters example_args = 0"
    "distributed example_args \<longrightarrow> 0 < world_size ?env"
    by (simp_all add: i ve)
  have lv: "local_val_result ?env 2 None =
      Inr [\<lparr>lddt_ca = 1 / 2, val_index = 0, pdb_chain_id = ''1abc_A''\<rparr>,
           \<lparr>lddt_ca = 1 / 2, val_index = 1, pdb_chain_id = ''1abc_A''\<rparr>]"
    by (simp add: local_val_result_def validation_def example_env_def example_batch_def)
  have ok: "\<forall>p\<in>set (processes example_args (world_size ?env)).
               \<not> isl (local_val_result ?env (iteration ?r) (rank p))"
    by (simp add: i processes_def fresh_pstate_fields ve lv)
  have g: "length (gathered_on_main example_args ?env 2) = 2"
    by (simp add: gathered_on_main_def lv ve)
  have l: "len_validation_dataset ?env = 3" by simp
  have mis: "length (gathered_on_main example_args ?env (iteration ?r)) \<noteq>
      len_validation_dataset ?env"
    by (simp add: i g)
  have ne: "gathered_on_main example_args ?env 2 \<noteq> []"
    using g by auto
  from gathered_count_mismatch_is_fatal [OF r a ok mis] ne
  have "outcome ?r = Raised AssertionError"
    and "status (training example_config ?env example_args) = Aborted AssertionError"
    and "shutdown (training example_config ?env example_args) = []"
    by (simp_all add: i)
  with r i g l show ?thesis by blast
qed

lemma flag_event_late: "flag_event e \<Longrightarrow> late_event e"
  by (cases e) simp_all

lemma filter_flag_late: "filter flag_event (filter late_event xs) = filter flag_event xs"
  by (induction xs) (auto dest: flag_event_late)

lemma flag_of_late:
  "filter late_event xs = ys \<Longrightarrow> filter flag_event xs = filter flag_event ys"
  by (metis filter_flag_late)

lemma training_loop_hd:
  "training_loop c a env sts (j # js) \<noteq> [] \<and>
   iteration (hd (training_loop c a env sts (j # js))) = j"
  by (simp add: Let_def)

lemma training_loop_next:
  assumes "r \<in> set (training_loop c a env sts [lo..hi])" "outcome r = Continue"
    and "iteration r < hi"
  shows "iteration r + 1 \<in> iteration ` set (training_loop c a env sts [lo..hi])"
  using assms
proof (induction lo hi rule: upto.induct)
  case (1 lo hi)
  show ?case
  proof (cases "lo \<le> hi")
    case False
    with "1.prems" show ?thesis by simp
  next
    case True
    then have u: "[lo..hi] = lo # [lo + 1..hi]" by (simp add: upto_rec1)
    let ?r0 = "train_val_iteration c a env sts lo"
    let ?rest = "training_loop c a env sts [lo + 1..hi]"
    show ?thesis
    proof (cases "outcome ?r0 = Continue")
      case c: True
      then have rs: "training_loop c a env sts [lo..hi] = ?r0 # ?rest"
        by (simp add: u Let_def)
      from "1.prems"(1) rs consider "r = ?r0" | "r \<in> set ?rest" by auto
      then show ?thesis
      proof cases
        case 1
        with "1.prems"(3) have "lo < hi" by simp
        then have "[lo + 1..hi] = (lo + 1) # [lo + 1 + 1..hi]"
          by (subst upto_rec1) simp_all
        with training_loop_hd [of c a env sts "lo + 1" "[lo + 1 + 1..hi]"]
        have "?rest \<noteq> []" "iteration (hd ?rest) = lo + 1" by simp_all
        then have "lo + 1 \<in> iteration ` set ?rest"
          by (metis hd_in_set imageI)
        with 1 show ?thesis by (simp add: rs)
      next
        case 2
        from "1.IH" [OF True 2 "1.prems"(2,3)] show ?thesis by (auto simp: rs)
      qed
    next
      case False
      then have "training_loop c a env sts [lo..hi] = [?r0]" by (simp add: u Let_def)
      with "1.prems" False show ?thesis by simp
    qed
  qed
qed

lemma training_completed:
  assumes "status (training c env a) = Completed"
  shows "map iteration (iterations (training c env a)) =
       [resume_from_latest_checkpoint (checkpoint_iterations env) + 1..num_train_iters a] \<or>
     (iterations (training c env a) \<noteq> [] \<and>
      outcome (last (iterations (training c env a))) = Break)"
proof -
  let ?np = "resume_from_latest_checkpoint (checkpoint_iterations env)"
  let ?rs = "training_loop c a env (processes a (world_size env)) [?np + 1..num_train_iters a]"
  from assms have its: "iterations (training c env a) = ?rs"
    and le: "loop_end ?rs = Continue \<or> loop_end ?rs = Break"
    by (auto simp: training_def Let_def split: if_splits sum.splits outcome.splits)
  from le show ?thesis
  proof
    assume "loop_end ?rs = Continue"
    from training_loop_all_Continue [OF this] its show ?thesis by simp
  next
    assume "loop_end ?rs = Break"
    then have "?rs \<noteq> [] \<and> outcome (last ?rs) = Break"
      by (auto simp: loop_end_def split: if_splits)
    with its show ?thesis by simp
  qed
qed

lemma training_not_deadlocked:
  assumes ws: "distributed a \<longrightarrow> 0 < world_size env"
  shows "status (training c env a) \<noteq> Deadlocked"
proof
  assume d: "status (training c env a) = Deadlocked"
  let ?np = "resume_from_latest_checkpoint (checkpoint_iterations env)"
  let ?rs = "training_loop c a env (processes a (world_size env)) [?np + 1..num_train_iters a]"
  from d have its: "iterations (training c env a) = ?rs" and le: "loop_end ?rs = Desync"
    by (auto simp: training_def Let_def split: if_splits sum.splits outcome.splits)
  from le have ne: "?rs \<noteq> []" and l: "outcome (last ?rs) = Desync"
    by (auto simp: loop_end_def split: if_splits)
  from ne its have m: "last ?rs \<in> set (iterations (training c env a))" by simp
  from training_iterations [OF m] obtain i where acc: "gradient_accumulation_iters a \<noteq> 0"
    and ri: "last ?rs = train_val_iteration c a env (processes a (world_size env)) i"
    by blast
  from iteration_outcome(1) [OF acc ws, of c i] l ri show False by simp
qed


lemma validated_iteration:
  assumes r: "r \<in> set (iterations (training c env a))"
    and ws: "distributed a \<longrightarrow> 0 < world_size env"
    and iv: "iteration r mod val_every_iters a = 0"
    and nr: "\<forall>e. outcome r \<noteq> Raised e"
  shows "outcome r =
       (if target_avg_lddt_ca_value a \<le> mean_of (gathered_on_main a env (iteration r))
        then Break else Continue)"
    and "s \<in> set (procs r) \<Longrightarrow>
       stop_training_flag s =
         (target_avg_lddt_ca_value a \<le> mean_of (gathered_on_main a env (iteration r))) \<and>
       (is_main_process s \<longrightarrow>
          val_avg_lddt_ca s = Some (mean_of (gathered_on_main a env (iteration r)))) \<and>
       filter flag_event (trace s) =
         [SetStopFlag (is_main_process s \<and>
            target_avg_lddt_ca_value a \<le> mean_of (gathered_on_main a env (iteration r)))] @
         (if distributed a
          then [Broadcast (target_avg_lddt_ca_value a
                  \<le> mean_of (gathered_on_main a env (iteration r)))]
          else [])"
proof -
  from training_iterations [OF r] obtain i where acc: "gradient_accumulation_iters a \<noteq> 0"
    and ri: "r = train_val_iteration c a env (processes a (world_size env)) i"
    by blast
  have i: "iteration r = i" by (simp add: ri)
  let ?f = "target_avg_lddt_ca_value a \<le> mean_of (gathered_on_main a env i)"
  from nr iteration_outcome(1) [OF acc ws, of c i]
  have bc: "outcome r = Break \<or> outcome r = Continue"
    unfolding ri by (cases "outcome (train_val_iteration c a env (processes a (world_size env)) i)")
      auto
  have facts: "val_every_iters a \<noteq> 0 \<and>
      (\<forall>s\<in>set (processes a (world_size env)). \<not> isl (local_val_result env i (rank s))) \<and>
      count_ok env (gathered_on_main a env i) \<and> outcome r = (if ?f then Break else Continue)"
    using bc iteration_outcome(2) [OF acc ws, of c i]
      iteration_outcome(3) [OF acc ws, of c i] iv
    unfolding ri i [unfolded ri] by auto
  then have v: "val_every_iters a \<noteq> 0"
    and ok: "\<forall>s\<in>set (processes a (world_size env)). \<not> isl (local_val_result env i (rank s))"
    and good: "count_ok env (gathered_on_main a env i)"
    and oc: "outcome r = (if ?f then Break else Continue)"
    by blast+
  from oc show "outcome r =
       (if target_avg_lddt_ca_value a \<le> mean_of (gathered_on_main a env (iteration r))
        then Break else Continue)"
    by (simp add: i)
  assume s: "s \<in> set (procs r)"
  note p = validation_process_ok [OF v acc iv [unfolded i] ws ok good s [unfolded ri]]
  have fl: "filter flag_event (trace s) =
      [SetStopFlag (is_main_process s \<and> ?f)] @ (if distributed a then [Broadcast ?f] else [])"
  proof (cases "is_main_process s")
    case True
    from p(3) [OF True, THEN conjunct2, THEN conjunct2, THEN flag_of_late]
    have "filter flag_event (trace s) =
        [SetStopFlag ?f] @ (if distributed a then [Broadcast ?f] else [])"
      by simp
    with True show ?thesis by simp
  next
    case False
    from p(4) [OF False] have d: "distributed a" by blast
    from p(4) [OF False, THEN conjunct2, THEN conjunct2, THEN flag_of_late]
    have "filter flag_event (trace s) = [SetStopFlag False, Broadcast ?f]"
      by simp
    with False d show ?thesis by simp
  qed
  from p(1) p(3) fl
  show "stop_training_flag s =
         (target_avg_lddt_ca_value a \<le> mean_of (gathered_on_main a env (iteration r))) \<and>
       (is_main_process s \<longrightarrow>
          val_avg_lddt_ca s = Some (mean_of (gathered_on_main a env (iteration r)))) \<and>
       filter flag_event (trace s) =
         [SetStopFlag (is_main_process s \<and>
            target_avg_lddt_ca_value a \<le> mean_of (gathered_on_main a env (iteration r)))] @
         (if distributed a
          then [Broadcast (target_avg_lddt_ca_value a
                  \<le> mean_of (gathered_on_main a env (iteration r)))]
          else [])"
    unfolding i by blast
qed

lemma break_iteration:
  assumes r: "r \<in> set (iterations (training c env a))"
    and ws: "distributed a \<longrightarrow> 0 < world_size env"
    and br: "outcome r = Break"
  shows "val_every_iters a \<noteq> 0 \<and> iteration r mod val_every_iters a = 0 \<and>
     r = last (iterations (training c env a)) \<and> status (training c env a) = Completed"
proof -
  from training_iterations [OF r] obtain i where acc: "gradient_accumulation_iters a \<noteq> 0"
    and ri: "r = train_val_iteration c a env (processes a (world_size env)) i"
    by blast
  have i: "iteration r = i" by (simp add: ri)
  from iteration_outcome(2) [OF acc ws, of c i] br
  have "val_every_iters a \<noteq> 0 \<and> i mod val_every_iters a = 0"
    unfolding ri by blast
  moreover from br have l: "r = last (iterations (training c env a))"
    using training_run(3) [OF r] by simp
  moreover from l br have "status (training c env a) = Completed"
    using training_run(2) [OF r] by simp
  ultimately show ?thesis unfolding i by blast
qed

text \<open>
  Claim C6, for a run with at least one process. At every validation iteration that
  no process leaves with an exception: the main process sets the stop flag to "the mean
  over the gathered list is at least the target", every other process sets it to zero,
  and after the broadcast (made when there is a process group) the flag of every
  process is the flag of the main process; the iteration ends with the break in every
  process when the flag is true and with the continuation in every process when it is
  false. A break happens only at a validation iteration, ends the run at that
  iteration and leaves it completed; after an iteration that continues below
  \<open>num_train_iters\<close> the next iteration is run; the processes never disagree; and a
  completed run has run all the iterations up to \<open>num_train_iters\<close> or has ended with
  a break.
\<close>

theorem stop_flag_is_broadcast:
  assumes ws: "distributed a \<longrightarrow> 0 < world_size env"
  shows
    "(\<forall>r\<in>set (iterations (training c env a)).
        iteration r mod val_every_iters a = 0 \<and> (\<forall>e. outcome r \<noteq> Raised e) \<longrightarrow>
          outcome r =
            (if target_avg_lddt_ca_value a \<le> mean_of (gathered_on_main a env (iteration r))
             then Break else Continue) \<and>
          (\<forall>s\<in>set (procs r).
             stop_training_flag s =
               (target_avg_lddt_ca_value a \<le> mean_of (gathered_on_main a env (iteration r))) \<and>
             (is_main_process s \<longrightarrow>
                val_avg_lddt_ca s = Some (mean_of (gathered_on_main a env (iteration r)))) \<and>
             filter flag_event (trace s) =
               [SetStopFlag (is_main_process s \<and>
                  target_avg_lddt_ca_value a
                    \<le> mean_of (gathered_on_main a env (iteration r)))] @
               (if distributed a
                then [Broadcast (target_avg_lddt_ca_value a
                        \<le> mean_of (gathered_on_main a env (iteration r)))]
                else []))) \<and>
     (\<forall>r\<in>set (iterations (training c env a)).
        outcome r = Break \<longrightarrow>
          val_every_iters a \<noteq> 0 \<and> iteration r mod val_every_iters a = 0 \<and>
          r = last (iterations (training c env a)) \<and> status (training c env a) = Completed) \<and>
     (\<forall>r\<in>set (iterations (training c env a)).
        outcome r = Continue \<and> iteration r < num_train_iters a \<longrightarrow>
          iteration r + 1 \<in> iteration ` set (iterations (training c env a))) \<and>
     status (training c env a) \<noteq> Deadlocked \<and>
     (status (training c env a) = Completed \<longrightarrow>
        map iteration (iterations (training c env a)) =
          [resume_from_latest_checkpoint (checkpoint_iterations env) + 1..num_train_iters a] \<or>
        (iterations (training c env a) \<noteq> [] \<and>
         outcome (last (iterations (training c env a))) = Break))"
proof (intro conjI ballI impI)
  fix r
  assume r: "r \<in> set (iterations (training c env a))"
    and h: "iteration r mod val_every_iters a = 0 \<and> (\<forall>e. outcome r \<noteq> Raised e)"
  then have iv: "iteration r mod val_every_iters a = 0" and nr: "\<forall>e. outcome r \<noteq> Raised e"
    by blast+
  show "outcome r =
            (if target_avg_lddt_ca_value a \<le> mean_of (gathered_on_main a env (iteration r))
             then Break else Continue)"
    by (rule validated_iteration(1) [OF r ws iv nr])
next
  fix r s
  assume r: "r \<in> set (iterations (training c env a))"
    and h: "iteration r mod val_every_iters a = 0 \<and> (\<forall>e. outcome r \<noteq> Raised e)"
    and s: "s \<in> set (procs r)"
  from h have iv: "iteration r mod val_every_iters a = 0" and nr: "\<forall>e. outcome r \<noteq> Raised e"
    by blast+
  note p = validated_iteration(2) [OF r ws iv nr s]
  from p show "stop_training_flag s =
               (target_avg_lddt_ca_value a \<le> mean_of (gathered_on_main a env (iteration r)))"
    by blast
  from p show "val_avg_lddt_ca s = Some (mean_of (gathered_on_main a env (iteration r)))"
    if "is_main_process s" using that by blast
  from p show "filter flag_event (trace s) =
               [SetStopFlag (is_main_process s \<and>
                  target_avg_lddt_ca_value a
                    \<le> mean_of (gathered_on_main a env (iteration r)))] @
               (if distributed a
                then [Broadcast (target_avg_lddt_ca_value a
                        \<le> mean_of (gathered_on_main a env (iteration r)))]
                else [])"
    by blast
next
  fix r
  assume r: "r \<in> set (iterations (training c env a))" and br: "outcome r = Break"
  note b = break_iteration [OF r ws br]
  from b show "val_every_iters a \<noteq> 0" by blast
  from b show "iteration r mod val_every_iters a = 0" by blast
  from b show "r = last (iterations (training c env a))" by blast
  from b show "status (training c env a) = Completed" by blast
next
  fix r
  assume r: "r \<in> set (iterations (training c env a))"
    and h: "outcome r = Continue \<and> iteration r < num_train_iters a"
  from r show "iteration r + 1 \<in> iteration ` set (iterations (training c env a))"
    unfolding training_run(1) [OF r]
    using h by (intro training_loop_next) simp_all
next
  show "status (training c env a) \<noteq> Deadlocked"
    by (rule training_not_deadlocked [OF ws])
next
  assume "status (training c env a) = Completed"
  then show "map iteration (iterations (training c env a)) =
          [resume_from_latest_checkpoint (checkpoint_iterations env) + 1..num_train_iters a] \<or>
        (iterations (training c env a) \<noteq> [] \<and>
         outcome (last (iterations (training c env a))) = Break)"
    by (rule training_completed)
qed


text \<open>
  The theorem on the example run with two processes: at iteration 2 the flag is false
  and the run goes on; at iteration 4 the main process sets the flag, the other process
  holds zero and receives the flag by the broadcast, and both leave the loop.
\<close>

theorem stop_flag_is_broadcast_witness:
  "distributed (example_args\<lparr>distributed := True\<rparr>) \<and>
   0 < world_size (example_env\<lparr>world_size := 2, len_validation_dataset := 4\<rparr>) \<and>
   map iteration (iterations (training example_config
       (example_env\<lparr>world_size := 2, len_validation_dataset := 4\<rparr>)
       (example_args\<lparr>distributed := True\<rparr>))) = [1, 2, 3, 4] \<and>
   outcome (hd (tl (iterations (training example_config
       (example_env\<lparr>world_size := 2, len_validation_dataset := 4\<rparr>)
       (example_args\<lparr>distributed := True\<rparr>))))) = Continue \<and>
   \<not> stop_training_flag (last (procs (hd (tl (iterations (training example_config
       (example_env\<lparr>world_size := 2, len_validation_dataset := 4\<rparr>)
       (example_args\<lparr>distributed := True\<rparr>))))))) \<and>
   outcome (last (iterations (training example_config
       (example_env\<lparr>world_size := 2, len_validation_dataset := 4\<rparr>)
       (example_args\<lparr>distributed := True\<rparr>)))) = Break \<and>
   stop_training_flag (hd (procs (last (iterations (training example_config
       (example_env\<lparr>world_size := 2, len_validation_dataset := 4\<rparr>)
       (example_args\<lparr>distributed := True\<rparr>)))))) \<and>
   stop_training_flag (last (procs (last (iterations (training example_config
       (example_env\<lparr>world_size := 2, len_validation_dataset := 4\<rparr>)
       (example_args\<lparr>distributed := True\<rparr>)))))) \<and>
   filter flag_event (trace (hd (procs (last (iterations (training example_config
       (example_env\<lparr>world_size := 2, len_validation_dataset := 4\<rparr>)
       (example_args\<lparr>distributed := True\<rparr>))))))) = [SetStopFlag True, Broadcast True] \<and>
   filter flag_event (trace (last (procs (last (iterations (training example_config
       (example_env\<lparr>world_size := 2, len_validation_dataset := 4\<rparr>)
       (example_args\<lparr>distributed := True\<rparr>))))))) = [SetStopFlag False, Broadcast True] \<and>
   status (training example_config
       (example_env\<lparr>world_size := 2, len_validation_dataset := 4\<rparr>)
       (example_args\<lparr>distributed := True\<rparr>)) = Completed"
proof -
  let ?env = "example_env\<lparr>world_size := 2, len_validation_dataset := 4\<rparr>"
  let ?a = "example_args\<lparr>distributed := True\<rparr>"
  let ?its = "iterations (training example_config ?env ?a)"
  let ?r2 = "hd (tl ?its)"
  let ?r4 = "last ?its"
  have a: "distributed ?a" "0 < world_size ?env" "val_every_iters ?a = 2"
    "target_avg_lddt_ca_value ?a = 4 / 5"
    by (simp_all add: example_args_def default_args_def example_env_def)
  then have ws: "distributed ?a \<longrightarrow> 0 < world_size ?env" by blast
  have its: "map iteration ?its = [1, 2, 3, 4]"
    by (simp add: example_run_distributed)
  have r: "?r2 \<in> set ?its" "?r4 \<in> set ?its"
    and i: "iteration ?r2 = 2" "iteration ?r4 = 4"
    and nr: "\<forall>e. outcome ?r2 \<noteq> Raised e" "\<forall>e. outcome ?r4 \<noteq> Raised e"
    and s: "hd (procs ?r2) \<in> set (procs ?r2)" "last (procs ?r2) \<in> set (procs ?r2)"
      "hd (procs ?r4) \<in> set (procs ?r4)" "last (procs ?r4) \<in> set (procs ?r4)"
    and m: "is_main_process (hd (procs ?r2))" "is_main_process (hd (procs ?r4))"
      "\<not> is_main_process (last (procs ?r4))"
    and av: "val_avg_lddt_ca (hd (procs ?r2)) = Some (1 / 2)"
      "val_avg_lddt_ca (hd (procs ?r4)) = Some (9 / 10)"
    by (simp_all add: example_run_distributed)
  have iv: "iteration ?r2 mod val_every_iters ?a = 0" "iteration ?r4 mod val_every_iters ?a = 0"
    by (simp_all add: i a)
  note th = stop_flag_is_broadcast [OF ws, of example_config]
  note rec = th [THEN conjunct1, rule_format]
  note o2 = rec [OF r(1) conjI [OF iv(1) nr(1)], THEN conjunct1]
  note o4 = rec [OF r(2) conjI [OF iv(2) nr(2)], THEN conjunct1]
  note p2 = rec [OF r(1) conjI [OF iv(1) nr(1)], THEN conjunct2, rule_format]
  note p4 = rec [OF r(2) conjI [OF iv(2) nr(2)], THEN conjunct2, rule_format]
  from p2 [OF s(1)] m(1) av(1) have g2: "mean_of (gathered_on_main ?a ?env (iteration ?r2)) = 1 / 2"
    by simp
  from p4 [OF s(3)] m(2) av(2) have g4: "mean_of (gathered_on_main ?a ?env (iteration ?r4)) = 9 / 10"
    by simp
  from o2 have c2: "outcome ?r2 = Continue" by (simp add: g2 a)
  from o4 have c4: "outcome ?r4 = Break" by (simp add: g4 a)
  from p2 [OF s(2)] have f2: "\<not> stop_training_flag (last (procs ?r2))" by (simp add: g2 a)
  from p4 [OF s(3)] have f4: "stop_training_flag (hd (procs ?r4))" by (simp add: g4 a)
  from p4 [OF s(4)] have f4': "stop_training_flag (last (procs ?r4))" by (simp add: g4 a)
  from p4 [OF s(3)] m(2)
  have t4: "filter flag_event (trace (hd (procs ?r4))) = [SetStopFlag True, Broadcast True]"
    by (simp add: g4 a)
  from p4 [OF s(4)] m(3)
  have t4': "filter flag_event (trace (last (procs ?r4))) = [SetStopFlag False, Broadcast True]"
    by (simp add: g4 a)
  from th [THEN conjunct2, THEN conjunct1, rule_format, OF r(2) c4]
  have st: "status (training example_config ?env ?a) = Completed" by blast
  from a(1,2) its c2 f2 c4 f4 f4' t4 t4' st show ?thesis by blast
qed

lemma take_upto: "take k [i..j] = [i..min j (i + int k - 1)]"
proof (induction k arbitrary: i)
  case 0
  then show ?case by simp
next
  case (Suc k)
  show ?case
  proof (cases "i \<le> j")
    case True
    then have "take (Suc k) [i..j] = i # take k [i + 1..j]"
      by (simp add: upto_rec1)
    also have "\<dots> = i # [i + 1..min j (i + 1 + int k - 1)]"
      by (simp add: Suc.IH)
    also have "\<dots> = [i..min j (i + int (Suc k) - 1)]"
      using True by (subst (2) upto_rec1) (simp_all add: add.commute add.left_commute)
    finally show ?thesis .
  next
    case False
    then show ?thesis by simp
  qed
qed

lemma resume_not_in_train_phase:
  "filter (\<lambda>e. e = ResumeFromLatestCheckpoint) (trace (train_phase c a env i s)) =
   filter (\<lambda>e. e = ResumeFromLatestCheckpoint) (trace s)"
  by (simp add: train_phase_def emit_def Let_def forward_events_def backward_events_def
      logging_events_def)

lemma resume_not_in_iteration:
  assumes "s \<in> set (procs (train_val_iteration c a env (processes a ws) i))"
  shows "ResumeFromLatestCheckpoint \<notin> set (trace s)"
proof (cases "val_every_iters a = 0")
  case True
  with assms obtain s0 where "s0 \<in> set (processes a ws)"
    and "s = s0\<lparr>raised := Some ZeroDivisionError\<rparr>"
    by (auto simp: train_val_iteration_def)
  then show ?thesis using processes_raised [of s0 a ws] by simp
next
  case False
  let ?p = "\<lambda>e. e = ResumeFromLatestCheckpoint"
  have late: "\<And>e. late_event e \<Longrightarrow> \<not> ?p e" by auto
  from assms have "process_view ?p s \<in> set (map (process_view ?p)
      (procs (train_val_iteration c a env (processes a ws) i)))" by simp
  also have "map (process_view ?p) (procs (train_val_iteration c a env (processes a ws) i)) =
      map (process_view ?p) (map (train_phase c a env i) (processes a ws))"
    by (rule view_iteration [OF late False])
  finally obtain s0 where s0: "s0 \<in> set (processes a ws)"
    and eq: "process_view ?p s = process_view ?p (train_phase c a env i s0)"
    by auto
  from eq have "filter ?p (trace s) = filter ?p (trace s0)"
    by (simp add: process_view_def resume_not_in_train_phase)
  also have "\<dots> = []" using processes_raised [OF s0] by simp
  finally show ?thesis by (auto simp: filter_empty_conv)
qed


lemma training_started:
  assumes prec: "precision a = fp32 \<or> precision a = tf32"
    and acc: "gradient_accumulation_iters a \<noteq> 0"
    and dv: "gradient_accumulation_iters a dvd
      resume_from_latest_checkpoint (checkpoint_iterations env)"
  shows "iterations (training c env a) =
      training_loop c a env (processes a (world_size env))
        [resume_from_latest_checkpoint (checkpoint_iterations env) + 1..num_train_iters a]"
  using assms
  by (cases "precision a")
     (auto simp: training_def Let_def assert_divisible_eq split: outcome.splits)

lemma training_startup:
  assumes prec: "precision a = fp32 \<or> precision a = tf32"
  shows "count_list (startup (training c env a)) ResumeFromLatestCheckpoint = 1 \<and>
     ResumeFromLatestCheckpoint \<notin> set (shutdown (training c env a))"
  using assms
  by (cases "precision a")
     (auto simp: training_def Let_def split: sum.splits outcome.splits)

lemma training_not_aligned:
  assumes prec: "precision a = fp32 \<or> precision a = tf32"
    and bad: "gradient_accumulation_iters a = 0 \<or>
      \<not> gradient_accumulation_iters a dvd
          resume_from_latest_checkpoint (checkpoint_iterations env)"
  shows "status (training c env a) =
       Aborted (if gradient_accumulation_iters a = 0 then ZeroDivisionError
                else AssertionError) \<and>
     iterations (training c env a) = [] \<and> shutdown (training c env a) = []"
  using assms
  by (cases "precision a")
     (auto simp: training_def Let_def assert_divisible_eq)

text \<open>
  Claim C5, for a supported precision (with another one the run ends in
  \<open>NotImplementedError\<close> before the resume). The resume is called exactly once, at
  startup, and never again; it returns 0 when there is no checkpoint. When the returned
  iteration is not a multiple of the accumulation length the run is aborted with
  \<open>AssertionError\<close> (\<open>ZeroDivisionError\<close> for a zero accumulation length, which
  \<open>parse_args\<close> excludes) before any iteration. Otherwise the iterations run are
  \<open>num_prev_iters + 1, num_prev_iters + 2, ...\<close>, without a gap, up to at most
  \<open>num_train_iters\<close>: the first is \<open>num_prev_iters + 1\<close> and, when every iteration
  ends with the continuation of the loop, the last is \<open>num_train_iters\<close>.
\<close>

theorem resume_once_then_first_iteration:
  assumes prec: "precision a = fp32 \<or> precision a = tf32"
  shows
    "count_list (startup (training c env a)) ResumeFromLatestCheckpoint = 1 \<and>
     ResumeFromLatestCheckpoint \<notin> set (shutdown (training c env a)) \<and>
     (\<forall>r\<in>set (iterations (training c env a)). \<forall>s\<in>set (procs r).
        ResumeFromLatestCheckpoint \<notin> set (trace s)) \<and>
     (checkpoint_iterations env = [] \<longrightarrow>
        resume_from_latest_checkpoint (checkpoint_iterations env) = 0) \<and>
     (gradient_accumulation_iters a = 0 \<or>
      \<not> gradient_accumulation_iters a dvd
          resume_from_latest_checkpoint (checkpoint_iterations env) \<longrightarrow>
        status (training c env a) =
          Aborted (if gradient_accumulation_iters a = 0 then ZeroDivisionError
                   else AssertionError) \<and>
        iterations (training c env a) = [] \<and> shutdown (training c env a) = []) \<and>
     (gradient_accumulation_iters a \<noteq> 0 \<and>
      gradient_accumulation_iters a dvd
        resume_from_latest_checkpoint (checkpoint_iterations env) \<longrightarrow>
        (\<exists>k\<le>num_train_iters a.
           map iteration (iterations (training c env a)) =
             [resume_from_latest_checkpoint (checkpoint_iterations env) + 1..k]) \<and>
        (resume_from_latest_checkpoint (checkpoint_iterations env) < num_train_iters a \<longrightarrow>
           iterations (training c env a) \<noteq> [] \<and>
           iteration (hd (iterations (training c env a))) =
             resume_from_latest_checkpoint (checkpoint_iterations env) + 1) \<and>
        ((\<forall>r\<in>set (iterations (training c env a)). outcome r = Continue) \<longrightarrow>
           map iteration (iterations (training c env a)) =
             [resume_from_latest_checkpoint (checkpoint_iterations env) + 1..
              num_train_iters a]))"
proof -
  let ?np = "resume_from_latest_checkpoint (checkpoint_iterations env)"
  let ?n = "num_train_iters a"
  let ?its = "iterations (training c env a)"
  let ?P = "processes a (world_size env)"
  have 1: "\<forall>r\<in>set ?its. \<forall>s\<in>set (procs r). ResumeFromLatestCheckpoint \<notin> set (trace s)"
  proof (intro ballI)
    fix r s assume r: "r \<in> set ?its" and s: "s \<in> set (procs r)"
    from training_iterations [OF r] obtain i
      where "r = train_val_iteration c a env ?P i" by blast
    with s show "ResumeFromLatestCheckpoint \<notin> set (trace s)"
      using resume_not_in_iteration by blast
  qed
  have 2: "checkpoint_iterations env = [] \<longrightarrow> ?np = 0"
    by (simp add: resume_from_latest_checkpoint_def)
  have 3: "(\<exists>k\<le>?n. map iteration ?its = [?np + 1..k]) \<and>
        (?np < ?n \<longrightarrow> ?its \<noteq> [] \<and> iteration (hd ?its) = ?np + 1) \<and>
        ((\<forall>r\<in>set ?its. outcome r = Continue) \<longrightarrow> map iteration ?its = [?np + 1..?n])"
    if acc: "gradient_accumulation_iters a \<noteq> 0" and dv: "gradient_accumulation_iters a dvd ?np"
  proof -
    note its = training_started [OF prec acc dv, of c]
    from training_loop_prefix [of "[?np + 1..?n]" c a env ?P]
    obtain k where "map iteration ?its = take k [?np + 1..?n]"
      unfolding its by blast
    then have "map iteration ?its = [?np + 1..min ?n (?np + 1 + int k - 1)]"
      by (simp add: take_upto)
    then have a: "\<exists>k\<le>?n. map iteration ?its = [?np + 1..k]"
      by (intro exI [of _ "min ?n (?np + 1 + int k - 1)"]) simp
    have b: "?its \<noteq> [] \<and> iteration (hd ?its) = ?np + 1" if "?np < ?n"
    proof -
      from that have "[?np + 1..?n] = (?np + 1) # [?np + 1 + 1..?n]"
        by (subst upto_rec1) simp_all
      with training_loop_hd [of c a env ?P "?np + 1" "[?np + 1 + 1..?n]"]
      show ?thesis unfolding its by simp
    qed
    have c: "map iteration ?its = [?np + 1..?n]" if "\<forall>r\<in>set ?its. outcome r = Continue"
    proof -
      from that have "loop_end ?its = Continue"
        by (auto simp: loop_end_def)
      then show ?thesis
        unfolding its using training_loop_all_Continue by blast
    qed
    from a b c show ?thesis by blast
  qed
  from training_startup [OF prec, of c env] training_not_aligned [OF prec, of env c] 1 2 3
  show ?thesis by blast
qed

text \<open>
  The theorem on the example run from a fresh start (first iteration 1), with
  checkpoints of the iterations 2, 6 and 4 (first iteration 7), and with checkpoints of
  the iterations 2 and 3 (aborted: 3 is not a multiple of the accumulation length 2).
\<close>

theorem resume_once_then_first_iteration_witness:
  "precision example_args = tf32 \<and>
   count_list (startup (training example_config example_env example_args))
     ResumeFromLatestCheckpoint = 1 \<and>
   resume_from_latest_checkpoint (checkpoint_iterations example_env) = 0 \<and>
   iteration (hd (iterations (training example_config example_env example_args))) = 1 \<and>
   resume_from_latest_checkpoint
     (checkpoint_iterations (example_env\<lparr>checkpoint_iterations := [2, 6, 4]\<rparr>)) = 6 \<and>
   iteration (hd (iterations (training example_config
     (example_env\<lparr>checkpoint_iterations := [2, 6, 4]\<rparr>) example_args))) = 7 \<and>
   resume_from_latest_checkpoint
     (checkpoint_iterations (example_env\<lparr>checkpoint_iterations := [2, 3]\<rparr>)) = 3 \<and>
   status (training example_config (example_env\<lparr>checkpoint_iterations := [2, 3]\<rparr>)
     example_args) = Aborted AssertionError \<and>
   iterations (training example_config (example_env\<lparr>checkpoint_iterations := [2, 3]\<rparr>)
     example_args) = []"
proof -
  let ?e6 = "example_env\<lparr>checkpoint_iterations := [2, 6, 4]\<rparr>"
  let ?e3 = "example_env\<lparr>checkpoint_iterations := [2, 3]\<rparr>"
  have p: "precision example_args = tf32" and acc: "gradient_accumulation_iters example_args = 2"
    and n: "num_train_iters example_args = 8"
    by (simp_all add: example_args_def default_args_def)
  then have prec: "precision example_args = fp32 \<or> precision example_args = tf32" by simp
  have np: "resume_from_latest_checkpoint (checkpoint_iterations example_env) = 0"
    "resume_from_latest_checkpoint (checkpoint_iterations ?e6) = 6"
    "resume_from_latest_checkpoint (checkpoint_iterations ?e3) = 3"
    by (simp_all add: resume_from_latest_checkpoint_def example_env_def)
  note t0 = resume_once_then_first_iteration [OF prec, of example_config example_env]
  note t6 = resume_once_then_first_iteration [OF prec, of example_config ?e6]
  note t3 = resume_once_then_first_iteration [OF prec, of example_config ?e3]
  from t0 have c: "count_list (startup (training example_config example_env example_args))
     ResumeFromLatestCheckpoint = 1" by blast
  from t0 have "iteration (hd (iterations (training example_config example_env example_args))) = 1"
    unfolding np acc n by simp
  moreover from t6
  have "iteration (hd (iterations (training example_config ?e6 example_args))) = 7"
    unfolding np acc n by simp
  moreover from t3
  have "status (training example_config ?e3 example_args) = Aborted AssertionError \<and>
      iterations (training example_config ?e3 example_args) = []"
    unfolding np acc n by simp
  ultimately show ?thesis using p c np by blast
qed

end
